theory Spec2Isabelle
  imports Complex_Main "HOL-Library.Char_ord" "HOL-Library.List_Lexorder"
    "HOL-Library.Product_Lexorder"
begin

section \<open>The unified forecaster of eco\_guardian: a shallow embedding\<close>

text \<open>
  The development follows \<^verbatim>\<open>eco_guardian/models/time_series_model.py\<close> (class
  \<^verbatim>\<open>UnifiedForecaster\<close>) and \<^verbatim>\<open>eco_guardian/models/train_time_series.py\<close> (the training
  driver). Conventions of the embedding:

  \<^item> a Python float is a finite real and arithmetic on floats is exact; the values of the
    numeric columns are therefore idealised, and the properties below that concern a
    forecast speak of its rows and dates only. The only non-finite values modelled are
    the ones the code itself handles: a missing value (NaN) of an area column is
    \<open>None\<close>, and the rate column \<open>y\<close> is a \<open>cell\<close> that may be NaN or an infinity. A
    Python int is unbounded, and its conversion by \<^verbatim>\<open>float\<close> can overflow;
  \<^item> a timestamp of the annual series is its calendar year. What pandas makes of dates
    and decimals depends on its version, which the repository does not pin: that
    behaviour is the parameter \<open>pandas\<close>;
  \<^item> an exception is a value of \<open>error\<close>; a method that mutates \<^verbatim>\<open>self\<close> returns the
    forecaster it leaves behind, also when it raises;
  \<^item> the libraries are modelled by their guards: the label encoder and the standard scaler
    in full, the time-series engine (Prophet) by its fitted/unfitted state and regressor
    list, its numerical fit being a parameter \<open>engine\<close> that may fail and its forecast a
    function that may overflow on a date;
  \<^item> the two column lists \<^verbatim>\<open>feature_columns\<close> and \<^verbatim>\<open>geo_columns\<close> are the constants that
    \<^verbatim>\<open>__init__\<close> assigns; \<^verbatim>\<open>save_model\<close> writes them and \<^verbatim>\<open>load_model\<close> reads them back.
\<close>

subsection \<open>Python values and exceptions\<close>

text \<open>
  The values a caller can put into the \<^verbatim>\<open>initial_conditions\<close> dictionary. A Python bool is
  an \<^verbatim>\<open>int\<close> (True is 1) and behaves as \<open>PInt\<close> in every operation below; \<open>PFloat\<close> is a
  finite float (the infinities and NaN are not among the inputs modelled); \<open>PNone\<close>
  stands for any value that is neither a number nor a string.
\<close>

datatype pyval = PInt int | PFloat real | PStr string | PNone

fun is_number :: "pyval \<Rightarrow> bool" where
  "is_number (PInt _) = True"
| "is_number (PFloat _) = True"
| "is_number _ = False"

fun is_integer :: "pyval \<Rightarrow> bool" where
  "is_integer (PInt _) = True"
| "is_integer _ = False"

fun is_str :: "pyval \<Rightarrow> bool" where
  "is_str (PStr _) = True"
| "is_str _ = False"

text \<open>
  The numeric value of a number, as the comparisons of the validation and the arithmetic
  of the result read it; only applied after the type checks have passed.
\<close>

fun num :: "pyval \<Rightarrow> real" where
  "num (PInt i) = of_int i"
| "num (PFloat r) = r"
| "num _ = 0"

fun int_of :: "pyval \<Rightarrow> int" where
  "int_of (PInt i) = i"
| "int_of (PFloat r) = (if 0 \<le> r then \<lfloor>r\<rfloor> else \<lceil>r\<rceil>)"
| "int_of _ = 0"

fun str_of :: "pyval \<Rightarrow> string" where
  "str_of (PStr s) = s"
| "str_of _ = []"

text \<open>
  One constructor per \<^verbatim>\<open>raise\<close> of the source and per library exception that can reach it.
  The three wrappers carry the exception that was being handled when they were raised:
  \<^verbatim>\<open>predict\<close> raises its wrapper \<^verbatim>\<open>from e\<close>; \<^verbatim>\<open>train\<close> and \<^verbatim>\<open>load_model\<close> raise theirs
  inside the handler without \<^verbatim>\<open>from\<close>, so the original is the implicit context of the
  wrapper and its text is part of the message. \<open>OverflowError\<close> is the one of \<^verbatim>\<open>float\<close>,
  \<open>ProphetOverflow\<close> the one of the engine's date arithmetic.
\<close>

datatype error =
    MissingLastYear
  | MissingInputs "string list"
  | TypeMismatch string
  | BelowMinimum string
  | AboveMaximum string
  | InvalidBiome
  | UnseenState string
  | InvalidHorizon
  | EncodeStateError
  | AttributeError
  | NotFittedError
  | UnseenLabels
  | OutOfBoundsDatetime
  | OverflowError
  | EmptyArray
  | KeyError string
  | ZeroDivisionError
  | MissingY
  | MissingColumns "string list"
  | InvalidArea
  | EncoderNotConfigured
  | UnmappedStates "string list"
  | ScalingFailure error
  | MissingAfterPreprocessing "string list"
  | ProphetFitOnce
  | ProphetAlreadyFit
  | ProphetNotFit
  | ProphetTooFewRows
  | ProphetMissingRegressor
  | EngineFailure
  | ProphetOverflow
  | NotTrained
  | MissingArtifact string
  | EncoderNotFound
  | PreprocessorNotFitted
  | FileNotFound
  | NaNAreas
  | NegativeAreas
  | InvalidDateFormat
  | TrainingFailure error
  | PredictionFailure error
  | LoadFailure error

text \<open>Sequencing of fallible steps: the first exception ends the computation.\<close>

definition andthen :: "error + 'a \<Rightarrow> ('a \<Rightarrow> error + 'b) \<Rightarrow> error + 'b" where
  "andthen r k = (case r of Inl e \<Rightarrow> Inl e | Inr v \<Rightarrow> k v)"

definition guard :: "bool \<Rightarrow> error \<Rightarrow> error + unit" where
  "guard ok e = (if ok then Inr () else Inl e)"

text \<open>
  \<^verbatim>\<open>float(v)\<close>. An int is rounded to the nearest double; one whose magnitude rounds past
  the largest double (from \<open>2^1024 - 2^970\<close> on) raises \<^verbatim>\<open>OverflowError\<close>. The rounding
  itself is not modelled.
\<close>

fun to_float :: "pyval \<Rightarrow> error + real" where
  "to_float (PInt i) = (if \<bar>i\<bar> < 2 ^ 1024 - 2 ^ 970 then Inr (of_int i) else Inl OverflowError)"
| "to_float (PFloat r) = Inr r"
| "to_float (PStr s) = Inl (TypeMismatch ''float'')"
| "to_float PNone = Inl (TypeMismatch ''float'')"

subsection \<open>Frames\<close>

text \<open>
  The rows of the data frames. \<open>geo\<close> holds the two geographic columns; a \<open>frame_row\<close>
  adds the columns of the historical data, with the cell types as parameters (raw input:
  areas may be missing, the rate may be non-finite; after preprocessing: reals); a
  \<open>feature_row\<close> adds the two derived features.
\<close>

datatype cell = Num real | NaN | PosInf | NegInf

record geo =
  Estado :: string
  bioma :: string

record ('n, 't) frame_row = geo +
  ds :: int
  area_fazenda_ha :: 'n
  area_floresta_ha :: 'n
  y :: 't

record feature_row = "(real, real) frame_row" +
  prop_floresta :: real
  estado_code :: real

record frame =
  columns :: "string list"
  rows :: "(real option, cell) frame_row list"

record forecast_row = geo +
  data :: int
  conversao_ha_prevista :: real
  limite_inferior :: real
  limite_superior :: real
  area_floresta_projetada :: real
  area_fazenda_projetada :: real

subsection \<open>The pandas in use\<close>

text \<open>
  The behaviour of pandas that differs between its versions or lies outside the code:

  \<^item> \<open>range_fits start n\<close>: the timestamps of \<open>n\<close> annual periods from the first of January
    of the year \<open>start\<close> can all be held (with nanosecond timestamps the years 1678 to
    2262 only; with a coarser unit every four-digit year);
  \<^item> \<open>short_year_range start n\<close>: what \<^verbatim>\<open>date_range\<close> makes of a start text that is not of
    the form YYYY-01-01, the year having fewer or more than four digits or a sign (the
    text may be read as another date, or refused);
  \<^item> \<open>year_parses year\<close>: \<^verbatim>\<open>to_datetime\<close> with the format \<^verbatim>\<open>%Y\<close> accepts the year;
  \<^item> \<open>round4\<close>: \<^verbatim>\<open>DataFrame.round(4)\<close> on a double.
\<close>

record pandas =
  range_fits :: "int \<Rightarrow> nat \<Rightarrow> bool"
  short_year_range :: "int \<Rightarrow> nat \<Rightarrow> error + int list"
  year_parses :: "int \<Rightarrow> bool"
  round4 :: "real \<Rightarrow> real"

text \<open>
  \<^verbatim>\<open>pd.date_range(start=f"{year}-01-01", periods=n, freq='YS')\<close>: for a four-digit year
  the first of January of \<open>n\<close> consecutive years, when pandas can hold them.
\<close>

definition date_range :: "pandas \<Rightarrow> int \<Rightarrow> nat \<Rightarrow> error + int list" where
  "date_range pd start periods =
     (if 1000 \<le> start \<and> start \<le> 9999 then
        (if range_fits pd start periods then Inr (map (\<lambda>k. start + int k) [0..<periods])
         else Inl OutOfBoundsDatetime)
      else short_year_range pd start periods)"

subsection \<open>The label encoder\<close>

text \<open>
  sklearn's \<^verbatim>\<open>LabelEncoder\<close>: unfitted it has no \<^verbatim>\<open>classes_\<close>; \<^verbatim>\<open>fit\<close> stores the sorted
  distinct labels; \<^verbatim>\<open>transform\<close> maps a label to its position and refuses an unseen one.
\<close>

datatype label_encoder = LabelEncoder (classes: "string list option")

definition encoder_fit :: "string list \<Rightarrow> label_encoder" where
  "encoder_fit labels = LabelEncoder (Some (sort (remdups labels)))"

fun index_of :: "string list \<Rightarrow> string \<Rightarrow> nat" where
  "index_of [] s = 0"
| "index_of (c # cs) s = (if c = s then 0 else Suc (index_of cs s))"

definition encoder_transform :: "label_encoder \<Rightarrow> string list \<Rightarrow> error + int list" where
  "encoder_transform enc labels =
     (case classes enc of
        None \<Rightarrow> Inl NotFittedError
      | Some cs \<Rightarrow>
          if list_all (\<lambda>l. l \<in> set cs) labels
          then Inr (map (\<lambda>l. int (index_of cs l)) labels)
          else Inl UnseenLabels)"

subsection \<open>The scaler\<close>

text \<open>
  \<^verbatim>\<open>_create_preprocessor\<close> builds a \<^verbatim>\<open>ColumnTransformer\<close> around one \<^verbatim>\<open>StandardScaler\<close>.
  Fitting stores the mean and the scale (the population standard deviation, 1 for a
  constant column) of every feature column; transforming subtracts and divides.
\<close>

record standard_scaler =
  feature_names :: "string list"
  scaler_mean :: "real list"
  scaler_scale :: "real list"

datatype column_transformer = ColumnTransformer (scaler: "standard_scaler option")

definition column_mean :: "real list \<Rightarrow> real" where
  "column_mean xs = sum_list xs / real (length xs)"

definition column_var :: "real list \<Rightarrow> real" where
  "column_var xs = sum_list (map (\<lambda>x. (x - column_mean xs)\<^sup>2) xs) / real (length xs)"

definition column_scale :: "real list \<Rightarrow> real" where
  "column_scale xs = (if column_var xs = 0 then 1 else sqrt (column_var xs))"

text \<open>A feature matrix is a list of rows, each the values of the feature columns in order.\<close>

definition scaler_fit :: "string list \<Rightarrow> real list list \<Rightarrow> error + standard_scaler" where
  "scaler_fit names X =
     (if X = [] then Inl EmptyArray
      else Inr \<lparr>feature_names = names,
                scaler_mean = map column_mean (transpose X),
                scaler_scale = map column_scale (transpose X)\<rparr>)"

definition scale_row :: "standard_scaler \<Rightarrow> real list \<Rightarrow> real list" where
  "scale_row s r = map (\<lambda>(x, m, sd). (x - m) / sd) (zip r (zip (scaler_mean s) (scaler_scale s)))"

definition scaler_transform :: "standard_scaler \<Rightarrow> real list list \<Rightarrow> real list list" where
  "scaler_transform s X = map (scale_row s) X"

subsection \<open>The time-series engine\<close>

text \<open>
  Prophet, reduced to what the forecaster relies on. \<open>history\<close> tells whether the model
  holds training data (\<^verbatim>\<open>history is not None\<close>): \<^verbatim>\<open>fit\<close> stores the data before it
  starts the sampler. \<open>params\<close> is \<open>None\<close> until the sampler has succeeded; then it holds
  the forecast the model makes for a date and the scaled regressors: the point forecast
  with its lower and upper bound. \<^verbatim>\<open>add_regressor\<close> and \<^verbatim>\<open>fit\<close> refuse a model that has a
  history, \<^verbatim>\<open>fit\<close> needs two rows and every registered regressor among the columns,
  \<^verbatim>\<open>predict\<close> needs the history, the regressors and the parameters, and raises an
  overflow error for a date too far from the history (the forecast of that date is
  \<open>None\<close>); the rows it returns carry the dates it was given. The sampler itself is the
  parameter \<open>engine\<close>, which may fail.
\<close>

type_synonym posterior = "int \<Rightarrow> real list \<Rightarrow> (real \<times> real \<times> real) option"

type_synonym engine = "string list \<Rightarrow> feature_row list \<Rightarrow> posterior option"

record prophet =
  extra_regressors :: "string list"
  history :: bool
  params :: "posterior option"

definition Prophet :: prophet where
  "Prophet = \<lparr>extra_regressors = [], history = False, params = None\<rparr>"

definition add_regressor :: "prophet \<Rightarrow> string \<Rightarrow> error + prophet" where
  "add_regressor m col =
     (if history m then Inl ProphetAlreadyFit
      else Inr (m\<lparr>extra_regressors := extra_regressors m @ [col]\<rparr>))"

definition prophet_fit ::
  "engine \<Rightarrow> prophet \<Rightarrow> string list \<Rightarrow> feature_row list \<Rightarrow> (error + unit) \<times> prophet"
  where
  "prophet_fit eng m cols table =
     (if history m then (Inl ProphetFitOnce, m)
      else if length table < 2 then (Inl ProphetTooFewRows, m)
      else if \<not> list_all (\<lambda>c. c \<in> set cols) (extra_regressors m)
      then (Inl ProphetMissingRegressor, m)
      else case eng (extra_regressors m) table of
             None \<Rightarrow> (Inl EngineFailure, m\<lparr>history := True\<rparr>)
           | Some p \<Rightarrow> (Inr (), m\<lparr>history := True, params := Some p\<rparr>))"

fun forecast_rows ::
  "posterior \<Rightarrow> (int \<times> real list) list \<Rightarrow> error + (int \<times> real \<times> real \<times> real) list" where
  "forecast_rows p [] = Inr []"
| "forecast_rows p ((d, xs) # rest) =
     (case p d xs of
        None \<Rightarrow> Inl ProphetOverflow
      | Some f \<Rightarrow>
          (case forecast_rows p rest of
             Inl e \<Rightarrow> Inl e
           | Inr fs \<Rightarrow> Inr ((d, f) # fs)))"

definition prophet_predict ::
  "prophet \<Rightarrow> string list \<Rightarrow> (int \<times> real list) list \<Rightarrow> error + (int \<times> real \<times> real \<times> real) list"
  where
  "prophet_predict m cols future =
     (if \<not> history m then Inl ProphetNotFit
      else if \<not> list_all (\<lambda>c. c \<in> set cols) (extra_regressors m)
      then Inl ProphetMissingRegressor
      else case params m of
             None \<Rightarrow> Inl (KeyError ''k'')
           | Some p \<Rightarrow> forecast_rows p future)"

subsection \<open>The forecaster\<close>

record forecaster =
  model :: "prophet option"
  preprocessor :: "column_transformer option"
  is_trained :: bool
  encoder_estados :: "label_encoder option"

definition feature_columns :: "string list" where
  "feature_columns = [''area_fazenda_ha'', ''area_floresta_ha'', ''prop_floresta'', ''estado_code'']"

definition geo_columns :: "string list" where
  "geo_columns = [''Estado'', ''bioma'']"

text \<open>\<^verbatim>\<open>__init__\<close>: an unfitted model and scaler, not trained, no encoder.\<close>

definition UnifiedForecaster :: forecaster where
  "UnifiedForecaster =
     \<lparr>model = Some Prophet, preprocessor = Some (ColumnTransformer None),
      is_trained = False, encoder_estados = None\<rparr>"

subsection \<open>Validation of the inference inputs\<close>

definition required_keys :: "string list" where
  "required_keys = feature_columns @ geo_columns @ [''y'', ''last_year'']"

definition type_checks :: "(string \<times> (pyval \<Rightarrow> bool)) list" where
  "type_checks =
     [(''y'', is_number), (''area_fazenda_ha'', is_number), (''area_floresta_ha'', is_number),
      (''Estado'', is_str), (''bioma'', is_str), (''prop_floresta'', is_number),
      (''estado_code'', is_integer), (''last_year'', is_integer)]"

fun check_types :: "(string \<rightharpoonup> pyval) \<Rightarrow> (string \<times> (pyval \<Rightarrow> bool)) list \<Rightarrow> error + unit" where
  "check_types inputs [] = Inr ()"
| "check_types inputs ((key, valid) # rest) =
     (case inputs key of
        None \<Rightarrow> check_types inputs rest
      | Some v \<Rightarrow> if valid v then check_types inputs rest else Inl (TypeMismatch key))"

definition numeric_checks :: "(string \<times> real option \<times> real option) list" where
  "numeric_checks =
     [(''area_fazenda_ha'', Some 0, None), (''area_floresta_ha'', Some 0, None),
      (''prop_floresta'', Some 0, Some 1)]"

fun check_ranges ::
  "(string \<rightharpoonup> pyval) \<Rightarrow> (string \<times> real option \<times> real option) list \<Rightarrow> error + unit" where
  "check_ranges inputs [] = Inr ()"
| "check_ranges inputs ((key, min_val, max_val) # rest) =
     (case inputs key of
        None \<Rightarrow> Inl (KeyError key)
      | Some v \<Rightarrow>
          if (case min_val of None \<Rightarrow> False | Some m \<Rightarrow> num v < m) then Inl (BelowMinimum key)
          else if (case max_val of None \<Rightarrow> False | Some m \<Rightarrow> num v > m) then Inl (AboveMaximum key)
          else check_ranges inputs rest)"

text \<open>The six biome names; the two accented letters are written as their UTF-8 bytes.\<close>

definition valid_biomas :: "string list" where
  "valid_biomas =
     [''Amaz'' @ [CHR 0xC3, CHR 0xB4] @ ''nia'', ''Caatinga'', ''Cerrado'', ''Pantanal'',
      ''Mata Atl'' @ [CHR 0xC3, CHR 0xA2] @ ''ntica'', ''Pampa'']"

definition validate_inputs :: "forecaster \<Rightarrow> (string \<rightharpoonup> pyval) \<Rightarrow> error + unit" where
  "validate_inputs self inputs =
     (let missing = filter (\<lambda>k. inputs k = None) required_keys in
      if missing \<noteq> [] then Inl (MissingInputs missing)
      else
        andthen (check_types inputs type_checks) (\<lambda>_.
        andthen (check_ranges inputs numeric_checks) (\<lambda>_.
        andthen (guard (list_ex (\<lambda>b. inputs ''bioma'' = Some (PStr b)) valid_biomas) InvalidBiome) (\<lambda>_.
          case encoder_estados self of
            Some (LabelEncoder (Some cs)) \<Rightarrow>
              guard (list_ex (\<lambda>c. inputs ''Estado'' = Some (PStr c)) cs)
                (UnseenState (case inputs ''Estado'' of None \<Rightarrow> [] | Some v \<Rightarrow> str_of v))
          | _ \<Rightarrow> Inr ()))))"

subsection \<open>The future covariate frame\<close>

definition lookup :: "(string \<rightharpoonup> pyval) \<Rightarrow> string \<Rightarrow> error + pyval" where
  "lookup d k = (case d k of None \<Rightarrow> Inl (KeyError k) | Some v \<Rightarrow> Inr v)"

text \<open>The value under a key that an earlier check has found present.\<close>

definition getv :: "(string \<rightharpoonup> pyval) \<Rightarrow> string \<Rightarrow> pyval" where
  "getv d k = (case d k of None \<Rightarrow> PNone | Some v \<Rightarrow> v)"

fun check_numeric :: "(string \<rightharpoonup> pyval) \<Rightarrow> string list \<Rightarrow> error + unit" where
  "check_numeric initial [] = Inr ()"
| "check_numeric initial (col # rest) =
     (case initial col of
        None \<Rightarrow> Inl (KeyError col)
      | Some v \<Rightarrow> if is_number v then check_numeric initial rest else Inl (TypeMismatch col))"

text \<open>
  \<^verbatim>\<open>_create_future_dataframe\<close>. The encoder is consulted only to confirm the state (its
  \<^verbatim>\<open>ValueError\<close> is re-raised; the missing encoder is an \<^verbatim>\<open>AttributeError\<close> that the
  handler does not catch); the dates are \<open>horizon + 1\<close> January firsts from the year after
  \<open>last_year\<close>, cut to the first \<open>horizon\<close>; every other column repeats the initial value,
  the four numbers converted by \<^verbatim>\<open>float\<close> in the order of the dictionary display.
  The method is only called by \<^verbatim>\<open>predict\<close>, after the validation has found \<open>last_year\<close>
  and \<open>estado_code\<close> to be integers and \<open>Estado\<close> and \<open>bioma\<close> strings.
\<close>

definition create_future_dataframe ::
  "pandas \<Rightarrow> forecaster \<Rightarrow> (string \<rightharpoonup> pyval) \<Rightarrow> int \<Rightarrow> error + feature_row list" where
  "create_future_dataframe pd self initial horizon =
     andthen (check_numeric initial [''area_fazenda_ha'', ''area_floresta_ha'', ''prop_floresta'', ''y''])
       (\<lambda>_.
     andthen (case encoder_estados self of
                None \<Rightarrow> Inl AttributeError
              | Some enc \<Rightarrow>
                  andthen (lookup initial ''Estado'') (\<lambda>estado.
                    case estado of
                      PStr name \<Rightarrow>
                        (case encoder_transform enc [name] of
                           Inl _ \<Rightarrow> Inl EncodeStateError
                         | Inr _ \<Rightarrow> Inr estado)
                    | _ \<Rightarrow> Inl EncodeStateError)) (\<lambda>estado.
     andthen (lookup initial ''last_year'') (\<lambda>last_year.
     andthen (date_range pd (int_of last_year + 1) (nat (horizon + 1))) (\<lambda>dates.
     andthen (to_float (getv initial ''y'')) (\<lambda>rate.
     andthen (to_float (getv initial ''area_fazenda_ha'')) (\<lambda>fazenda.
     andthen (to_float (getv initial ''area_floresta_ha'')) (\<lambda>floresta.
     andthen (to_float (getv initial ''prop_floresta'')) (\<lambda>proportion.
     andthen (lookup initial ''estado_code'') (\<lambda>code.
     andthen (lookup initial ''bioma'') (\<lambda>biome.
       Inr (map (\<lambda>d.
              \<lparr>Estado = str_of estado, bioma = str_of biome, ds = d,
               area_fazenda_ha = fazenda, area_floresta_ha = floresta, y = rate,
               prop_floresta = proportion, estado_code = of_int (int_of code)\<rparr>)
            (take (nat horizon) dates))))))))))))"

subsection \<open>Prediction\<close>

fun cumprod_from :: "real \<Rightarrow> real list \<Rightarrow> real list" where
  "cumprod_from acc [] = []"
| "cumprod_from acc (x # xs) = (acc * x) # cumprod_from (acc * x) xs"

definition cumprod :: "real list \<Rightarrow> real list" where
  "cumprod xs = cumprod_from 1 xs"

definition features_of :: "feature_row \<Rightarrow> real list" where
  "features_of r = [area_fazenda_ha r, area_floresta_ha r, prop_floresta r, estado_code r]"

text \<open>
  The two derived fields, computed when the dictionary lacks them. The source updates the
  caller's dictionary in place; the model hands the updated dictionary to the next step.
\<close>

definition derive_estado_code ::
  "forecaster \<Rightarrow> (string \<rightharpoonup> pyval) \<Rightarrow> error + (string \<rightharpoonup> pyval)" where
  "derive_estado_code self ic =
     (if ic ''estado_code'' \<noteq> None then Inr ic
      else case encoder_estados self of
             None \<Rightarrow> Inl AttributeError
           | Some enc \<Rightarrow>
               andthen (lookup ic ''Estado'') (\<lambda>estado.
               andthen (encoder_transform enc [str_of estado]) (\<lambda>codes.
                 Inr (ic(''estado_code'' \<mapsto> PInt (case codes of [] \<Rightarrow> 0 | c # _ \<Rightarrow> c))))))"

definition derive_prop_floresta :: "(string \<rightharpoonup> pyval) \<Rightarrow> error + (string \<rightharpoonup> pyval)" where
  "derive_prop_floresta ic =
     (if ic ''prop_floresta'' \<noteq> None then Inr ic
      else
        andthen (lookup ic ''area_fazenda_ha'') (\<lambda>fazenda.
        andthen (lookup ic ''area_floresta_ha'') (\<lambda>floresta.
          let total_area = num fazenda + num floresta in
          Inr (ic(''prop_floresta'' \<mapsto>
                 PFloat (if total_area > 0 then num floresta / total_area else 0))))))"

definition transform :: "column_transformer option \<Rightarrow> real list list \<Rightarrow> error + real list list" where
  "transform p X =
     (case p of
        None \<Rightarrow> Inl AttributeError
      | Some ct \<Rightarrow>
          (case scaler ct of
             None \<Rightarrow> Inl NotFittedError
           | Some s \<Rightarrow> Inr (scaler_transform s X)))"

text \<open>
  The rows of the result: the forecast joined with the geographic columns by position,
  the forest area as the initial forest times the running product of \<open>1 - rate\<close>, the
  farmland as the initial farmland plus the forest lost, all numeric columns rounded to
  four decimals by pandas.
\<close>

definition result_rows ::
  "pandas \<Rightarrow> real \<Rightarrow> real \<Rightarrow> feature_row list \<Rightarrow> (int \<times> real \<times> real \<times> real) list \<Rightarrow>
   forecast_row list"
  where
  "result_rows pd initial_fazenda initial_floresta future forecast =
     map (\<lambda>(g, (d, yhat, yhat_lower, yhat_upper), c).
            \<lparr>Estado = Estado g, bioma = bioma g, data = d,
             conversao_ha_prevista = round4 pd yhat,
             limite_inferior = round4 pd yhat_lower,
             limite_superior = round4 pd yhat_upper,
             area_floresta_projetada = round4 pd (initial_floresta * c),
             area_fazenda_projetada =
               round4 pd (initial_fazenda + (initial_floresta - initial_floresta * c))\<rparr>)
       (zip future (zip forecast (cumprod (map (\<lambda>(d, yhat, _). 1 - yhat) forecast))))"

definition check_horizon :: "pyval \<Rightarrow> error + int" where
  "check_horizon horizon =
     (case horizon of
        PInt h \<Rightarrow> if h \<le> 0 then Inl InvalidHorizon else Inr h
      | _ \<Rightarrow> Inl InvalidHorizon)"

definition predict_body ::
  "pandas \<Rightarrow> forecaster \<Rightarrow> (string \<rightharpoonup> pyval) \<Rightarrow> pyval \<Rightarrow> error + forecast_row list" where
  "predict_body pd self initial_conditions horizon =
     andthen (validate_inputs self initial_conditions) (\<lambda>_.
     andthen (check_horizon horizon) (\<lambda>h.
     andthen (derive_estado_code self initial_conditions) (\<lambda>ic1.
     andthen (derive_prop_floresta ic1) (\<lambda>ic.
     andthen (create_future_dataframe pd self ic h) (\<lambda>future.
     andthen (transform (preprocessor self) (map features_of future)) (\<lambda>future_processed.
     andthen (case model self of
                None \<Rightarrow> Inl AttributeError
              | Some m \<Rightarrow>
                  prophet_predict m ([''ds'', ''y''] @ feature_columns)
                    (zip (map ds future) future_processed)) (\<lambda>forecast.
     andthen (lookup ic ''area_floresta_ha'') (\<lambda>initial_floresta.
     andthen (lookup ic ''area_fazenda_ha'') (\<lambda>initial_fazenda.
       Inr (result_rows pd (num initial_fazenda) (num initial_floresta) future forecast))))))))))"

text \<open>
  A line of the error log: the region named in the message (the value under
  \<^verbatim>\<open>'Estado'\<close>, or the default text) and the exception.
\<close>

datatype log_entry = LogError pyval error

definition region_of :: "(string \<rightharpoonup> pyval) \<Rightarrow> pyval" where
  "region_of ic = (case ic ''Estado'' of None \<Rightarrow> PStr ''Estado desconhecido'' | Some v \<Rightarrow> v)"

text \<open>
  \<^verbatim>\<open>predict\<close>: the check for \<^verbatim>\<open>'last_year'\<close> stands before the \<^verbatim>\<open>try\<close>; every exception
  of the body is logged and re-raised as a \<^verbatim>\<open>RuntimeError\<close> from it. The result pairs the
  outcome with the lines logged.
\<close>

definition predict ::
  "pandas \<Rightarrow> forecaster \<Rightarrow> (string \<rightharpoonup> pyval) \<Rightarrow> pyval \<Rightarrow>
   (error + forecast_row list) \<times> log_entry list"
  where
  "predict pd self initial_conditions horizon =
     (if initial_conditions ''last_year'' = None then (Inl MissingLastYear, [])
      else case predict_body pd self initial_conditions horizon of
             Inl e \<Rightarrow> (Inl (PredictionFailure e), [LogError (region_of initial_conditions) e])
           | Inr result \<Rightarrow> (Inr result, []))"

subsection \<open>Preprocessing\<close>

definition required_cols :: "string list" where
  "required_cols = [''ds'', ''y'', ''Estado'', ''area_floresta_ha'', ''area_fazenda_ha'', ''bioma'']"

definition col_order :: "string list" where
  "col_order =
     [''ds'', ''y'', ''Estado'', ''bioma'', ''area_fazenda_ha'', ''area_floresta_ha'',
      ''prop_floresta'', ''estado_code'']"

text \<open>\<^verbatim>\<open>replace([inf, -inf], nan).fillna(0)\<close> on the rate column.\<close>

fun sanitize :: "cell \<Rightarrow> real" where
  "sanitize (Num r) = r"
| "sanitize _ = 0"

text \<open>The \<^verbatim>\<open>'sum'\<close> aggregation skips missing values; the sum of none is 0.\<close>

definition nansum :: "real option list \<Rightarrow> real" where
  "nansum vs = sum_list (map (\<lambda>v. case v of None \<Rightarrow> 0 | Some x \<Rightarrow> x) vs)"

definition key_of :: "('n, 't) frame_row \<Rightarrow> string \<times> int \<times> string" where
  "key_of r = (Estado r, ds r, bioma r)"

text \<open>The keys of \<^verbatim>\<open>groupby\<close>: the distinct keys, sorted.\<close>

definition group_keys :: "('n, 't) frame_row list \<Rightarrow> (string \<times> int \<times> string) list" where
  "group_keys rs = sort (remdups (map key_of rs))"

text \<open>
  \<^verbatim>\<open>groupby(['Estado', 'ds', 'bioma']).agg(sum, sum, first)\<close> after the rate has been
  sanitised: one row per key, the areas summed, the rate of the group's first row.
\<close>

definition group_sum_first ::
  "(real option, cell) frame_row list \<Rightarrow> (real, real) frame_row list" where
  "group_sum_first rs =
     map (\<lambda>k. let g = filter (\<lambda>r. key_of r = k) rs in
            \<lparr>Estado = fst k, bioma = snd (snd k), ds = fst (snd k),
             area_fazenda_ha = nansum (map area_fazenda_ha g),
             area_floresta_ha = nansum (map area_floresta_ha g),
             y = (case g of [] \<Rightarrow> 0 | r # _ \<Rightarrow> sanitize (y r))\<rparr>)
       (group_keys rs)"

definition total_area :: "(real, real) frame_row \<Rightarrow> real" where
  "total_area r = area_fazenda_ha r + area_floresta_ha r"

text \<open>
  The state codes of the grouped rows. A failing \<^verbatim>\<open>transform\<close> is re-raised with the
  states missing from \<^verbatim>\<open>classes_\<close>; reading \<^verbatim>\<open>classes_\<close> of an unfitted encoder fails in
  the handler itself.
\<close>

definition encode_states ::
  "forecaster \<Rightarrow> (real, real) frame_row list \<Rightarrow> error + int list" where
  "encode_states self grouped =
     (case encoder_estados self of
        None \<Rightarrow> Inl EncoderNotConfigured
      | Some enc \<Rightarrow>
          (case encoder_transform enc (map Estado grouped) of
             Inr codes \<Rightarrow> Inr codes
           | Inl _ \<Rightarrow>
               (case classes enc of
                  None \<Rightarrow> Inl AttributeError
                | Some cs \<Rightarrow>
                    Inl (UnmappedStates (filter (\<lambda>s. s \<notin> set cs) (remdups (map Estado grouped)))))))"

definition derived_row :: "(real, real) frame_row \<Rightarrow> int \<Rightarrow> feature_row" where
  "derived_row r code =
     \<lparr>Estado = Estado r, bioma = bioma r, ds = ds r,
      area_fazenda_ha = area_fazenda_ha r, area_floresta_ha = area_floresta_ha r, y = y r,
      prop_floresta = (if total_area r > 0 then area_floresta_ha r / total_area r else 0),
      estado_code = of_int code\<rparr>"

text \<open>
  \<^verbatim>\<open>hasattr(self.preprocessor, 'mean_')\<close>: a \<^verbatim>\<open>ColumnTransformer\<close> has no attribute
  \<^verbatim>\<open>mean_\<close>, fitted or not (the attribute belongs to the \<^verbatim>\<open>StandardScaler\<close> inside it), so
  the test is false for every preprocessor.
\<close>

definition has_mean_attr :: "column_transformer \<Rightarrow> bool" where
  "has_mean_attr ct = False"

definition fit_transform ::
  "column_transformer \<Rightarrow> real list list \<Rightarrow> error + real list list \<times> column_transformer" where
  "fit_transform ct X =
     (case scaler_fit feature_columns X of
        Inl e \<Rightarrow> Inl e
      | Inr s \<Rightarrow> Inr (scaler_transform s X, ColumnTransformer (Some s)))"

definition with_features :: "feature_row \<Rightarrow> real list \<Rightarrow> feature_row" where
  "with_features r v =
     r\<lparr>area_fazenda_ha := v ! 0, area_floresta_ha := v ! 1, prop_floresta := v ! 2,
       estado_code := v ! 3\<rparr>"

text \<open>
  Step 6 of \<^verbatim>\<open>preprocess_data\<close>: the feature columns are replaced by their scaled values;
  any exception of the step is re-raised as a \<^verbatim>\<open>RuntimeError\<close>. A fit replaces the
  preprocessor of the forecaster.
\<close>

definition scale_features ::
  "forecaster \<Rightarrow> feature_row list \<Rightarrow> (error + feature_row list) \<times> forecaster" where
  "scale_features self df_grouped =
     (let features = map features_of df_grouped in
      case preprocessor self of
        None \<Rightarrow> (Inl (ScalingFailure AttributeError), self)
      | Some ct \<Rightarrow>
          if has_mean_attr ct then
            (case transform (Some ct) features of
               Inl e \<Rightarrow> (Inl (ScalingFailure e), self)
             | Inr scaled \<Rightarrow> (Inr (map2 with_features df_grouped scaled), self))
          else
            (case fit_transform ct features of
               Inl e \<Rightarrow> (Inl (ScalingFailure e), self)
             | Inr (scaled, ct') \<Rightarrow>
                 (Inr (map2 with_features df_grouped scaled), self\<lparr>preprocessor := Some ct'\<rparr>)))"

definition preprocess_data ::
  "forecaster \<Rightarrow> frame \<Rightarrow> (error + feature_row list) \<times> forecaster" where
  "preprocess_data self df =
     (if ''y'' \<notin> set (columns df) then (Inl MissingY, self)
      else
        let missing = filter (\<lambda>c. c \<notin> set (columns df)) required_cols in
        if missing \<noteq> [] then (Inl (MissingColumns missing), self)
        else
          let df_grouped = group_sum_first (rows df) in
          if list_ex (\<lambda>r. total_area r \<le> 0) df_grouped then (Inl InvalidArea, self)
          else
            case encode_states self df_grouped of
              Inl e \<Rightarrow> (Inl e, self)
            | Inr codes \<Rightarrow> scale_features self (map2 derived_row df_grouped codes))"

subsection \<open>Training\<close>

text \<open>
  The loop that registers the feature columns as regressors, skipping the ones the model
  has already.
\<close>

fun register_regressors :: "prophet \<Rightarrow> string list \<Rightarrow> (error + unit) \<times> prophet" where
  "register_regressors m [] = (Inr (), m)"
| "register_regressors m (col # rest) =
     (if col \<in> set (extra_regressors m) then register_regressors m rest
      else case add_regressor m col of
             Inl e \<Rightarrow> (Inl e, m)
           | Inr m' \<Rightarrow> register_regressors m' rest)"

text \<open>\<^verbatim>\<open>get_feature_names_out\<close> of the preprocessor: the columns it was fitted on.\<close>

definition get_feature_names_out :: "column_transformer option \<Rightarrow> error + string list" where
  "get_feature_names_out p =
     (case p of
        None \<Rightarrow> Inl AttributeError
      | Some ct \<Rightarrow> (case scaler ct of None \<Rightarrow> Inl NotFittedError | Some s \<Rightarrow> Inr (feature_names s)))"

text \<open>
  The body of the \<^verbatim>\<open>try\<close> in \<^verbatim>\<open>train\<close>, after preprocessing: the column check, the
  registration of the regressors and the fit. It returns the model as the step leaves it.
\<close>

definition fit_model ::
  "engine \<Rightarrow> forecaster \<Rightarrow> feature_row list \<Rightarrow> (error + unit) \<times> forecaster" where
  "fit_model eng self df_processed =
     (case get_feature_names_out (preprocessor self) of
        Inl e \<Rightarrow> (Inl e, self)
      | Inr names \<Rightarrow>
          let missing = filter (\<lambda>c. c \<notin> set col_order) ([''ds'', ''y''] @ names) in
          if missing \<noteq> [] then (Inl (MissingAfterPreprocessing missing), self)
          else
            let feature_cols = filter (\<lambda>c. c \<in> set col_order) feature_columns in
            case model self of
              None \<Rightarrow> (Inl AttributeError, self)
            | Some m \<Rightarrow>
                (case register_regressors m feature_cols of
                   (Inl e, m') \<Rightarrow> (Inl e, self\<lparr>model := Some m'\<rparr>)
                 | (Inr _, m') \<Rightarrow>
                     (case prophet_fit eng m' ([''ds'', ''y''] @ feature_cols) df_processed of
                        (Inl e, m'') \<Rightarrow> (Inl e, self\<lparr>model := Some m''\<rparr>)
                      | (Inr _, m'') \<Rightarrow> (Inr (), self\<lparr>model := Some m''\<rparr>))))"

text \<open>
  \<^verbatim>\<open>train\<close>: on success the forecaster is marked trained; any exception marks it untrained
  and is re-raised as a \<^verbatim>\<open>RuntimeError\<close>.
\<close>

definition train :: "engine \<Rightarrow> forecaster \<Rightarrow> frame \<Rightarrow> (error + unit) \<times> forecaster" where
  "train eng self df =
     (case preprocess_data self df of
        (Inl e, self1) \<Rightarrow> (Inl (TrainingFailure e), self1\<lparr>is_trained := False\<rparr>)
      | (Inr df_processed, self1) \<Rightarrow>
          (case fit_model eng self1 df_processed of
             (Inl e, self2) \<Rightarrow> (Inl (TrainingFailure e), self2\<lparr>is_trained := False\<rparr>)
           | (Inr _, self2) \<Rightarrow> (Inr (), self2\<lparr>is_trained := True\<rparr>)))"

subsection \<open>Persistence\<close>

text \<open>
  The dictionary that \<^verbatim>\<open>save_model\<close> dumps and \<^verbatim>\<open>load_model\<close> reads with \<^verbatim>\<open>get\<close>: an
  entry that is absent (or \<^verbatim>\<open>None\<close>) is \<open>None\<close>. The file system is a function from paths
  to what \<^verbatim>\<open>joblib.load\<close> returns or raises; \<^verbatim>\<open>save_model\<close> returns the dictionary it
  dumps (the write itself is not modelled).
\<close>

record artifact =
  saved_model :: "prophet option"
  saved_preprocessor :: "column_transformer option"
  saved_encoder_estados :: "label_encoder option"

definition save_model :: "forecaster \<Rightarrow> error + artifact" where
  "save_model self =
     (if \<not> is_trained self then Inl NotTrained
      else if model self = None then Inl (MissingArtifact ''model'')
      else if preprocessor self = None then Inl (MissingArtifact ''preprocessor'')
      else case encoder_estados self of
             None \<Rightarrow> Inl (MissingArtifact ''encoder_estados'')
           | Some enc \<Rightarrow>
               (case classes enc of
                  None \<Rightarrow> Inl AttributeError
                | Some _ \<Rightarrow>
                    Inr \<lparr>saved_model = model self, saved_preprocessor = preprocessor self,
                         saved_encoder_estados = encoder_estados self\<rparr>))"

text \<open>\<^verbatim>\<open>hasattr(forecaster.preprocessor, 'transform')\<close>: every object but \<^verbatim>\<open>None\<close> that the
  artifact can hold as a preprocessor has the method, fitted or not.\<close>

definition has_transform :: "column_transformer option \<Rightarrow> bool" where
  "has_transform p = (p \<noteq> None)"

definition load_model :: "(string \<Rightarrow> error + artifact) \<Rightarrow> string \<Rightarrow> error + forecaster" where
  "load_model files model_path =
     (case files model_path of
        Inl e \<Rightarrow> if e = FileNotFound then Inl FileNotFound else Inl (LoadFailure e)
      | Inr artifacts \<Rightarrow>
          let forecaster = UnifiedForecaster
                \<lparr>model := saved_model artifacts,
                 preprocessor := saved_preprocessor artifacts,
                 encoder_estados := saved_encoder_estados artifacts\<rparr> in
          if encoder_estados forecaster = None then Inl (LoadFailure EncoderNotFound)
          else if has_transform (preprocessor forecaster)
          then Inr (forecaster\<lparr>is_trained := True\<rparr>)
          else Inl (LoadFailure PreprocessorNotFitted))"

subsection \<open>The training driver\<close>

text \<open>
  The frame the driver loads has the year in the column \<^verbatim>\<open>ano\<close> and the municipal rate
  in \<^verbatim>\<open>taxa_conversao_anual\<close>; its rows use the fields \<open>ds\<close> and \<open>y\<close> for them, the names
  the driver gives the two columns after grouping.
\<close>

definition clip_lower :: "real \<Rightarrow> real option \<Rightarrow> real option" where
  "clip_lower bound v = (case v of None \<Rightarrow> None | Some x \<Rightarrow> Some (max bound x))"

text \<open>Arithmetic of a rate cell with a finite weight, as IEEE arithmetic has it.\<close>

fun cell_times :: "cell \<Rightarrow> real \<Rightarrow> cell" where
  "cell_times (Num x) w = Num (x * w)"
| "cell_times NaN w = NaN"
| "cell_times PosInf w = (if 0 < w then PosInf else if w < 0 then NegInf else NaN)"
| "cell_times NegInf w = (if 0 < w then NegInf else if w < 0 then PosInf else NaN)"

fun cell_plus :: "cell \<Rightarrow> cell \<Rightarrow> cell" where
  "cell_plus (Num a) (Num b) = Num (a + b)"
| "cell_plus NaN _ = NaN"
| "cell_plus _ NaN = NaN"
| "cell_plus PosInf NegInf = NaN"
| "cell_plus NegInf PosInf = NaN"
| "cell_plus PosInf _ = PosInf"
| "cell_plus _ PosInf = PosInf"
| "cell_plus NegInf _ = NegInf"
| "cell_plus _ NegInf = NegInf"

text \<open>
  \<^verbatim>\<open>np.average(x, weights=w)\<close>: a missing weight makes the result NaN; weights that sum
  to zero raise; otherwise the weighted sum over the sum of the weights.
\<close>

definition np_average :: "cell list \<Rightarrow> real option list \<Rightarrow> error + cell" where
  "np_average xs ws =
     (if list_ex (\<lambda>w. w = None) ws then Inr NaN
      else
        let scl = nansum ws in
        if scl = 0 then Inl ZeroDivisionError
        else Inr (cell_times
                    (foldl cell_plus (Num 0)
                       (map2 (\<lambda>x w. cell_times x (case w of None \<Rightarrow> 0 | Some v \<Rightarrow> v)) xs ws))
                    (1 / scl)))"

text \<open>
  The grouping of the driver: one row per (state, year, biome), the clipped areas summed,
  the rate averaged with the clipped farmland areas as weights.
\<close>

fun group_average ::
  "(real option, cell) frame_row list \<Rightarrow> (string \<times> int \<times> string) list \<Rightarrow>
   error + (real option, cell) frame_row list" where
  "group_average rs [] = Inr []"
| "group_average rs (k # ks) =
     (let g = filter (\<lambda>r. key_of r = k) rs in
      case np_average (map y g) (map area_fazenda_ha g) of
        Inl e \<Rightarrow> Inl e
      | Inr rate \<Rightarrow>
          (case group_average rs ks of
             Inl e \<Rightarrow> Inl e
           | Inr rest \<Rightarrow>
               Inr (\<lparr>Estado = fst k, bioma = snd (snd k), ds = fst (snd k),
                     area_fazenda_ha = Some (nansum (map area_fazenda_ha g)),
                     area_floresta_ha = Some (nansum (map area_floresta_ha g)),
                     y = rate\<rparr> # rest)))"

definition validate_input_data :: "pandas \<Rightarrow> frame \<Rightarrow> error + unit" where
  "validate_input_data pd df =
     (let missing =
            filter (\<lambda>c. c \<notin> set (columns df))
              [''ds'', ''y'', ''Estado'', ''bioma'', ''area_fazenda_ha'', ''area_floresta_ha''] in
      if missing \<noteq> [] then Inl (MissingColumns missing)
      else if list_ex (\<lambda>r. area_floresta_ha r = None \<or> area_fazenda_ha r = None) (rows df)
      then Inl NaNAreas
      else if list_ex (\<lambda>r. (case area_floresta_ha r of None \<Rightarrow> False | Some a \<Rightarrow> a < 0) \<or>
                            (case area_fazenda_ha r of None \<Rightarrow> False | Some a \<Rightarrow> a < 0))
                (rows df)
      then Inl NegativeAreas
      else if list_ex (\<lambda>r. \<not> year_parses pd (ds r)) (rows df) then Inl InvalidDateFormat
      else Inr ())"

text \<open>The distinct values of a column in the order of their first occurrence.\<close>

definition unique :: "'a list \<Rightarrow> 'a list" where
  "unique xs = rev (remdups (rev xs))"

text \<open>
  The part of \<^verbatim>\<open>main\<close> before the loop: clipping, grouping, renaming and validation.
\<close>

definition prepare :: "pandas \<Rightarrow> frame \<Rightarrow> error + frame" where
  "prepare pd raw =
     (let missing =
            filter (\<lambda>c. c \<notin> set (columns raw))
              [''area_fazenda_ha'', ''area_floresta_ha'', ''Estado'', ''ano'', ''bioma'',
               ''taxa_conversao_anual''] in
      case missing of
        c # _ \<Rightarrow> Inl (KeyError c)
      | [] \<Rightarrow>
          let clipped =
                map (\<lambda>r. r\<lparr>area_fazenda_ha := clip_lower (1 / 10000) (area_fazenda_ha r),
                            area_floresta_ha := clip_lower (1 / 10000) (area_floresta_ha r)\<rparr>)
                  (rows raw) in
          andthen (group_average clipped (group_keys clipped)) (\<lambda>grouped.
            let df = \<lparr>columns = [''Estado'', ''ds'', ''bioma'', ''area_fazenda_ha'',
                                 ''area_floresta_ha'', ''y''],
                      rows = grouped\<rparr> in
            andthen (validate_input_data pd df) (\<lambda>_. Inr df)))"

text \<open>
  The loop of \<^verbatim>\<open>main\<close>: for every state a new forecaster with the shared encoder, trained
  on the rows of the state (with the extra column \<^verbatim>\<open>estado_code\<close>) and saved. The first
  exception ends the loop.
\<close>

fun train_states :: "engine \<Rightarrow> label_encoder \<Rightarrow> frame \<Rightarrow> string list \<Rightarrow> error + artifact list"
  where
  "train_states eng estado_encoder df [] = Inr []"
| "train_states eng estado_encoder df (estado # rest) =
     (let forecaster = UnifiedForecaster\<lparr>encoder_estados := Some estado_encoder\<rparr>;
          df_estado = \<lparr>columns = columns df @ [''estado_code''],
                       rows = filter (\<lambda>r. Estado r = estado) (rows df)\<rparr>
      in case encoder_transform estado_encoder [estado] of
           Inl e \<Rightarrow> Inl e
         | Inr _ \<Rightarrow>
             (case train eng forecaster df_estado of
                (Inl e, _) \<Rightarrow> Inl e
              | (Inr _, trained) \<Rightarrow>
                  (case save_model trained of
                     Inl e \<Rightarrow> Inl e
                   | Inr saved \<Rightarrow>
                       (case train_states eng estado_encoder df rest of
                          Inl e \<Rightarrow> Inl e
                        | Inr others \<Rightarrow> Inr (saved # others)))))"

text \<open>
  \<^verbatim>\<open>main\<close> on the frame it loaded: the artifacts it saved (exit code 0), or the
  exception it logged (exit code 1).
\<close>

definition main :: "pandas \<Rightarrow> engine \<Rightarrow> frame \<Rightarrow> error + artifact list" where
  "main pd eng raw =
     andthen (prepare pd raw) (\<lambda>df.
       train_states eng (encoder_fit (unique (map Estado (rows df)))) df
         (unique (map Estado (rows df))))"

subsection \<open>Lifecycle errors\<close>

text \<open>
  The exceptions that report an operation in the wrong lifecycle state (the kind the
  specification calls StateError): the forecaster's own "not trained", the engine's
  refusals of a second fit, of a late regressor and of a forecast before the fit, the
  scaler's and encoder's "not fitted", and every wrapper around one of them.
\<close>

fun lifecycle_error :: "error \<Rightarrow> bool" where
  "lifecycle_error NotTrained = True"
| "lifecycle_error ProphetFitOnce = True"
| "lifecycle_error ProphetAlreadyFit = True"
| "lifecycle_error ProphetNotFit = True"
| "lifecycle_error NotFittedError = True"
| "lifecycle_error (ScalingFailure e) = lifecycle_error e"
| "lifecycle_error (TrainingFailure e) = lifecycle_error e"
| "lifecycle_error (PredictionFailure e) = lifecycle_error e"
| "lifecycle_error (LoadFailure e) = lifecycle_error e"
| "lifecycle_error _ = False"

text \<open>The underlying model of the forecaster has been given to \<^verbatim>\<open>fit\<close> and holds a history.\<close>

definition model_fitted :: "forecaster \<Rightarrow> bool" where
  "model_fitted self = (case model self of None \<Rightarrow> False | Some m \<Rightarrow> history m)"

text \<open>
  Calls of \<^verbatim>\<open>train\<close> one after the other on the same instance: the outcome of each call
  and the instance the last one leaves. A call is refused when it raises a
  TrainingFailure.
\<close>

fun train_each :: "engine \<Rightarrow> forecaster \<Rightarrow> frame list \<Rightarrow> (error + unit) list \<times> forecaster"
  where
  "train_each eng self [] = ([], self)"
| "train_each eng self (df # dfs) =
     (case train eng self df of
        (r, self1) \<Rightarrow> (case train_each eng self1 dfs of (rs, self2) \<Rightarrow> (r # rs, self2)))"

fun refused :: "error + unit \<Rightarrow> bool" where
  "refused (Inl (TrainingFailure c)) = True"
| "refused _ = False"

subsection \<open>Range errors\<close>

text \<open>
  The exceptions that report a numeric range limit of a library: an int too large for a
  float, a date that a timestamp cannot hold, an overflow in the date arithmetic of the
  engine.
\<close>

fun range_failure :: "error \<Rightarrow> bool" where
  "range_failure OverflowError = True"
| "range_failure OutOfBoundsDatetime = True"
| "range_failure ProphetOverflow = True"
| "range_failure _ = False"

subsection \<open>Example data\<close>

definition amazonia :: string where
  "amazonia = ''Amaz'' @ [CHR 0xC3, CHR 0xB4] @ ''nia''"

definition acre_encoder :: label_encoder where
  "acre_encoder = LabelEncoder (Some [''Acre'', ''Bahia''])"

text \<open>A forecaster as the driver sets it up: constructed, then given the shared encoder.\<close>

definition acre_forecaster :: forecaster where
  "acre_forecaster = UnifiedForecaster\<lparr>encoder_estados := Some acre_encoder\<rparr>"

definition acre_history :: frame where
  "acre_history =
     \<lparr>columns = [''Estado'', ''ds'', ''bioma'', ''area_fazenda_ha'', ''area_floresta_ha'', ''y''],
      rows =
        [\<lparr>Estado = ''Acre'', bioma = amazonia, ds = 2022,
          area_fazenda_ha = Some 100, area_floresta_ha = Some 900, y = Num (1 / 100)\<rparr>,
         \<lparr>Estado = ''Acre'', bioma = amazonia, ds = 2023,
          area_fazenda_ha = Some 300, area_floresta_ha = Some 700, y = Num (2 / 100)\<rparr>]\<rparr>"

definition later_history :: frame where
  "later_history =
     \<lparr>columns = [''Estado'', ''ds'', ''bioma'', ''area_fazenda_ha'', ''area_floresta_ha'', ''y''],
      rows =
        [\<lparr>Estado = ''Acre'', bioma = amazonia, ds = 2024,
          area_fazenda_ha = Some 10, area_floresta_ha = Some 90, y = Num (1 / 100)\<rparr>,
         \<lparr>Estado = ''Acre'', bioma = amazonia, ds = 2025,
          area_fazenda_ha = Some 30, area_floresta_ha = Some 70, y = Num (2 / 100)\<rparr>]\<rparr>"

text \<open>
  An example of pandas for the runs below, which all start from a four-digit year:
  timestamps in nanoseconds, which hold the years 1678 to 2262; a start text that is not
  of the form YYYY-01-01 is refused; decimals are rounded in exact arithmetic to the
  nearest multiple of 0.0001, a half to the even neighbour.
\<close>

definition rint :: "real \<Rightarrow> int" where
  "rint x =
     (let n = \<lfloor>x\<rfloor>; d = x - of_int n in
      if d < 1 / 2 then n else if 1 / 2 < d then n + 1 else if even n then n else n + 1)"

definition pandas_ns :: pandas where
  "pandas_ns =
     \<lparr>range_fits = (\<lambda>start n. 1678 \<le> start \<and> start + int n - 1 \<le> 2262),
      short_year_range = (\<lambda>start n. Inl OutOfBoundsDatetime),
      year_parses = (\<lambda>year. 1678 \<le> year \<and> year \<le> 2262),
      round4 = (\<lambda>x. of_int (rint (x * 10000)) / 10000)\<rparr>"

text \<open>An engine whose fit always succeeds with a constant forecast, and one that fails.\<close>

definition flat_engine :: engine where
  "flat_engine regressors table = Some (\<lambda>d xs. Some (1 / 100, 0, 2 / 100))"

definition failing_engine :: engine where
  "failing_engine regressors table = None"

text \<open>
  The inference inputs of the specification's scenario: the six keys of the input contract,
  and the same with the two derived fields supplied.
\<close>

definition acre_conditions :: "string \<rightharpoonup> pyval" where
  "acre_conditions =
     [''Estado'' \<mapsto> PStr ''Acre'', ''bioma'' \<mapsto> PStr amazonia,
      ''area_fazenda_ha'' \<mapsto> PInt 100000, ''area_floresta_ha'' \<mapsto> PInt 900000,
      ''y'' \<mapsto> PFloat (1 / 100), ''last_year'' \<mapsto> PInt 2023]"

definition full_conditions :: "string \<rightharpoonup> pyval" where
  "full_conditions =
     acre_conditions(''prop_floresta'' \<mapsto> PFloat (9 / 10), ''estado_code'' \<mapsto> PInt 0)"


text \<open>An artifact whose preprocessor was never fitted, and a file system that holds it.\<close>

definition unfitted_artifact :: artifact where
  "unfitted_artifact =
     \<lparr>saved_model = Some (Prophet\<lparr>extra_regressors := feature_columns, history := True,
                                   params := Some (\<lambda>d xs. Some (1 / 100, 0, 2 / 100))\<rparr>),
      saved_preprocessor = Some (ColumnTransformer None),
      saved_encoder_estados = Some acre_encoder\<rparr>"

definition unfitted_files :: "string \<Rightarrow> error + artifact" where
  "unfitted_files path = Inr unfitted_artifact"

text \<open>
  The scaler fitted on \<open>acre_history\<close> and the one fitted on \<open>later_history\<close>, the
  preprocessed rows of \<open>acre_history\<close>, and the forecaster that training on it with
  \<open>flat_engine\<close> leaves.
\<close>

definition acre_scaler :: standard_scaler where
  "acre_scaler =
     \<lparr>feature_names = feature_columns, scaler_mean = [200, 800, 4 / 5, 0],
      scaler_scale = [100, 100, 1 / 10, 1]\<rparr>"

definition later_scaler :: standard_scaler where
  "later_scaler =
     \<lparr>feature_names = feature_columns, scaler_mean = [20, 80, 4 / 5, 0],
      scaler_scale = [10, 10, 1 / 10, 1]\<rparr>"

definition acre_processed :: "feature_row list" where
  "acre_processed =
     [\<lparr>Estado = ''Acre'', bioma = amazonia, ds = 2022, area_fazenda_ha = - 1,
       area_floresta_ha = 1, y = 1 / 100, prop_floresta = 1, estado_code = 0\<rparr>,
      \<lparr>Estado = ''Acre'', bioma = amazonia, ds = 2023, area_fazenda_ha = 1,
       area_floresta_ha = - 1, y = 2 / 100, prop_floresta = - 1, estado_code = 0\<rparr>]"

definition acre_trained :: forecaster where
  "acre_trained =
     \<lparr>model = Some \<lparr>extra_regressors = feature_columns, history = True,
                     params = Some (\<lambda>d xs. Some (1 / 100, 0, 2 / 100))\<rparr>,
      preprocessor = Some (ColumnTransformer (Some acre_scaler)),
      is_trained = True, encoder_estados = Some acre_encoder\<rparr>"

text \<open>
  The forecaster that a training of \<open>acre_forecaster\<close> on \<open>acre_history\<close> leaves when the
  engine fails.
\<close>

definition acre_stuck :: forecaster where
  "acre_stuck =
     \<lparr>model = Some \<lparr>extra_regressors = feature_columns, history = True, params = None\<rparr>,
      preprocessor = Some (ColumnTransformer (Some acre_scaler)),
      is_trained = False, encoder_estados = Some acre_encoder\<rparr>"

definition later_processed :: "feature_row list" where
  "later_processed =
     [\<lparr>Estado = ''Acre'', bioma = amazonia, ds = 2024, area_fazenda_ha = - 1,
       area_floresta_ha = 1, y = 1 / 100, prop_floresta = 1, estado_code = 0\<rparr>,
      \<lparr>Estado = ''Acre'', bioma = amazonia, ds = 2025, area_fazenda_ha = 1,
       area_floresta_ha = - 1, y = 2 / 100, prop_floresta = - 1, estado_code = 0\<rparr>]"

text \<open>The forecaster that \<^verbatim>\<open>load_model\<close> builds from \<open>unfitted_artifact\<close>.\<close>

definition unfitted_loaded :: forecaster where
  "unfitted_loaded =
     \<lparr>model = saved_model unfitted_artifact, preprocessor = Some (ColumnTransformer None),
      is_trained = True, encoder_estados = Some acre_encoder\<rparr>"


subsection \<open>Frames of the driver\<close>

text \<open>
  A frame without missing area values, and a row whose two areas are present and not
  below a bound.
\<close>

definition no_missing_areas :: "frame \<Rightarrow> bool" where
  "no_missing_areas df =
     list_all (\<lambda>r. area_fazenda_ha r \<noteq> None \<and> area_floresta_ha r \<noteq> None) (rows df)"

definition areas_at_least :: "real \<Rightarrow> (real option, 't) frame_row \<Rightarrow> bool" where
  "areas_at_least b r =
     ((case area_fazenda_ha r of None \<Rightarrow> False | Some a \<Rightarrow> b \<le> a) \<and>
      (case area_floresta_ha r of None \<Rightarrow> False | Some a \<Rightarrow> b \<le> a))"

text \<open>
  Two frames for the driver: one whose only row has both areas missing, and one whose
  areas are all present, some of them zero.
\<close>

definition nan_frame :: frame where
  "nan_frame =
     \<lparr>columns = [''Estado'', ''ano'', ''bioma'', ''area_fazenda_ha'', ''area_floresta_ha'',
                 ''taxa_conversao_anual''],
      rows = [\<lparr>Estado = ''Acre'', bioma = amazonia, ds = 2020, area_fazenda_ha = None,
               area_floresta_ha = None, y = Num (1 / 100)\<rparr>]\<rparr>"

definition zero_frame :: frame where
  "zero_frame =
     \<lparr>columns = [''Estado'', ''ano'', ''bioma'', ''area_fazenda_ha'', ''area_floresta_ha'',
                 ''taxa_conversao_anual''],
      rows = [\<lparr>Estado = ''Acre'', bioma = amazonia, ds = 2020, area_fazenda_ha = Some 0,
               area_floresta_ha = Some 0, y = Num (1 / 100)\<rparr>,
              \<lparr>Estado = ''Acre'', bioma = amazonia, ds = 2021, area_fazenda_ha = Some 0,
               area_floresta_ha = Some 0, y = Num (1 / 100)\<rparr>]\<rparr>"

text \<open>The frame that the driver makes of \<open>zero_frame\<close> before the loop.\<close>

definition zero_prepared :: frame where
  "zero_prepared =
     \<lparr>columns = [''Estado'', ''ds'', ''bioma'', ''area_fazenda_ha'', ''area_floresta_ha'', ''y''],
      rows = [\<lparr>Estado = ''Acre'', bioma = amazonia, ds = 2020,
               area_fazenda_ha = Some (1 / 10000), area_floresta_ha = Some (1 / 10000),
               y = Num (1 / 100)\<rparr>,
              \<lparr>Estado = ''Acre'', bioma = amazonia, ds = 2021,
               area_fazenda_ha = Some (1 / 10000), area_floresta_ha = Some (1 / 10000),
               y = Num (1 / 100)\<rparr>]\<rparr>"

section \<open>Properties\<close>

subsection \<open>Sequencing and the checks\<close>

lemma andthen_Inl [simp]: "andthen (Inl e) k = Inl e"
  by (simp add: andthen_def)

lemma andthen_Inr [simp]: "andthen (Inr v) k = k v"
  by (simp add: andthen_def)

lemma andthen_eq_Inr: "andthen r k = Inr b \<longleftrightarrow> (\<exists>v. r = Inr v \<and> k v = Inr b)"
  by (cases r) simp_all

lemma andthen_eq_Inl: "andthen r k = Inl e \<longleftrightarrow> r = Inl e \<or> (\<exists>v. r = Inr v \<and> k v = Inl e)"
  by (cases r) simp_all

lemma guard_simps [simp]:
  "guard True e = Inr ()" "guard False e = Inl e"
  "guard b e = Inr u \<longleftrightarrow> b" "guard b e = Inl e' \<longleftrightarrow> \<not> b \<and> e' = e"
  by (auto simp: guard_def)

lemma check_types_error: "check_types ic cs = Inl e \<Longrightarrow> \<exists>k. e = TypeMismatch k"
  by (induction ic cs rule: check_types.induct) (auto split: option.splits if_splits)

lemma check_ranges_error:
  "check_ranges ic cs = Inl e \<Longrightarrow> \<exists>k. e = BelowMinimum k \<or> e = AboveMaximum k \<or> e = KeyError k"
  by (induction ic cs rule: check_ranges.induct) (auto split: option.splits if_splits)

lemma check_numeric_error:
  "check_numeric ic cs = Inl e \<Longrightarrow> \<exists>k. e = TypeMismatch k \<or> e = KeyError k"
  by (induction ic cs rule: check_numeric.induct) (auto split: option.splits if_splits)

lemma lookup_error: "lookup d k = Inl e \<Longrightarrow> e = KeyError k"
  by (auto simp: lookup_def split: option.splits)

lemma validate_inputs_error:
  assumes "validate_inputs self ic = Inl e"
  shows "\<not> lifecycle_error e"
  using assms
  by (auto simp: validate_inputs_def Let_def andthen_eq_Inl
      dest!: check_types_error check_ranges_error
      split: if_splits option.splits label_encoder.splits)

lemma check_horizon_error: "check_horizon h = Inl e \<Longrightarrow> e = InvalidHorizon"
  by (auto simp: check_horizon_def split: pyval.splits if_splits)

lemma derive_estado_code_no_encoder:
  "encoder_estados self = None \<Longrightarrow> derive_estado_code self ic = Inl e \<Longrightarrow> e = AttributeError"
  by (auto simp: derive_estado_code_def split: if_splits)

lemma derive_prop_floresta_error: "derive_prop_floresta ic = Inl e \<Longrightarrow> \<exists>k. e = KeyError k"
  by (auto simp: derive_prop_floresta_def andthen_eq_Inl Let_def dest!: lookup_error
      split: if_splits)

subsection \<open>Prediction without an encoder\<close>

lemma create_future_dataframe_no_encoder:
  assumes "encoder_estados self = None"
  shows "\<exists>e. create_future_dataframe pd self ic h = Inl e \<and> \<not> lifecycle_error e"
proof (cases "check_numeric ic [''area_fazenda_ha'', ''area_floresta_ha'', ''prop_floresta'', ''y'']")
  case (Inl e)
  then show ?thesis
    using check_numeric_error[OF Inl] by (auto simp: create_future_dataframe_def)
next
  case (Inr u)
  then show ?thesis
    using assms by (simp add: create_future_dataframe_def)
qed

lemma predict_body_no_encoder:
  assumes "encoder_estados self = None"
  shows "\<exists>e. predict_body pd self ic h = Inl e \<and> \<not> lifecycle_error e"
proof -
  consider (invalid) e where "validate_inputs self ic = Inl e"
    | (horizon) e where "validate_inputs self ic = Inr ()" "check_horizon h = Inl e"
    | (code) n e where "validate_inputs self ic = Inr ()" "check_horizon h = Inr n"
        "derive_estado_code self ic = Inl e"
    | (proportion) n ic1 e where "validate_inputs self ic = Inr ()" "check_horizon h = Inr n"
        "derive_estado_code self ic = Inr ic1" "derive_prop_floresta ic1 = Inl e"
    | (future) n ic1 ic2 where "validate_inputs self ic = Inr ()" "check_horizon h = Inr n"
        "derive_estado_code self ic = Inr ic1" "derive_prop_floresta ic1 = Inr ic2"
    by (metis old.sum.exhaust old.unit.exhaust)
  then show ?thesis
  proof cases
    case invalid
    then show ?thesis
      using validate_inputs_error[OF invalid] by (simp add: predict_body_def)
  next
    case horizon
    then show ?thesis
      using check_horizon_error[OF horizon(2)] by (simp add: predict_body_def)
  next
    case code
    then show ?thesis
      using derive_estado_code_no_encoder[OF assms code(3)] by (simp add: predict_body_def)
  next
    case proportion
    then show ?thesis
      using derive_prop_floresta_error[OF proportion(4)] by (auto simp: predict_body_def)
  next
    case future
    obtain err where "create_future_dataframe pd self ic2 n = Inl err" "\<not> lifecycle_error err"
      using create_future_dataframe_no_encoder[OF assms] by blast
    with future show ?thesis by (simp add: predict_body_def)
  qed
qed

text \<open>
  Claim C7, as the code has it. \<^verbatim>\<open>predict\<close> makes no check of \<^verbatim>\<open>is_trained\<close>. On a
  freshly constructed forecaster it never returns a forecast, whatever the inputs: it
  raises the error of the first step that fails (the missing \<^verbatim>\<open>last_year\<close>, a validation
  error, the invalid horizon, or the attribute error of the encoder that is still
  \<^verbatim>\<open>None\<close>), and that error is never one that reports the lifecycle state.
\<close>

theorem fresh_predict_raises:
  "\<exists>e. fst (predict pd UnifiedForecaster ic h) = Inl e \<and> \<not> lifecycle_error e"
proof (cases "ic ''last_year'' = None")
  case True
  then show ?thesis by (simp add: predict_def)
next
  case False
  have "encoder_estados UnifiedForecaster = None"
    by (simp add: UnifiedForecaster_def)
  from predict_body_no_encoder[OF this, of pd ic h]
  obtain e where "predict_body pd UnifiedForecaster ic h = Inl e" "\<not> lifecycle_error e"
    by blast
  with False show ?thesis by (simp add: predict_def)
qed

text \<open>
  Claim C7 as stated fails: with the complete inputs of the scenario the fresh forecaster
  raises the wrapped attribute error of the missing encoder, which is not a lifecycle
  (not-trained) error.
\<close>

theorem fresh_predict_not_state_error:
  "fst (predict pandas_ns UnifiedForecaster full_conditions (PInt 5)) =
     Inl (PredictionFailure AttributeError)
   \<and> \<not> lifecycle_error (PredictionFailure AttributeError)"
  by (simp add: predict_def predict_body_def full_conditions_def acre_conditions_def
      validate_inputs_def required_keys_def feature_columns_def geo_columns_def
      type_checks_def numeric_checks_def valid_biomas_def amazonia_def UnifiedForecaster_def
      check_horizon_def derive_estado_code_def derive_prop_floresta_def
      create_future_dataframe_def lookup_def)

subsection \<open>The example forecaster\<close>

lemma missing_keys_acre:
  "validate_inputs self acre_conditions = Inl (MissingInputs [''prop_floresta'', ''estado_code''])"
  by (simp add: validate_inputs_def required_keys_def feature_columns_def geo_columns_def
      acre_conditions_def)

lemma full_conditions_valid_encoder:
  "encoder_estados self = Some acre_encoder \<Longrightarrow> validate_inputs self full_conditions = Inr ()"
  by (simp add: validate_inputs_def required_keys_def feature_columns_def geo_columns_def
      full_conditions_def acre_conditions_def type_checks_def numeric_checks_def
      valid_biomas_def amazonia_def acre_encoder_def)

lemma full_conditions_valid: "validate_inputs acre_forecaster full_conditions = Inr ()"
  by (rule full_conditions_valid_encoder) (simp add: acre_forecaster_def)

lemma full_conditions_derived:
  "derive_estado_code self full_conditions = Inr full_conditions"
  "derive_prop_floresta full_conditions = Inr full_conditions"
  by (simp_all add: derive_estado_code_def derive_prop_floresta_def full_conditions_def)

lemma full_conditions_future:
  "encoder_estados self = Some acre_encoder \<Longrightarrow>
   \<exists>future. create_future_dataframe pandas_ns self full_conditions 5 = Inr future"
  by (simp add: create_future_dataframe_def full_conditions_def acre_conditions_def lookup_def
      getv_def acre_encoder_def encoder_transform_def date_range_def pandas_ns_def)

lemma full_conditions_last_year: "full_conditions ''last_year'' = Some (PInt 2023)"
  by (simp add: full_conditions_def acre_conditions_def)

lemma full_conditions_region: "region_of full_conditions = PStr ''Acre''"
  by (simp add: region_of_def full_conditions_def acre_conditions_def)

lemma acre_group_keys:
  "group_keys (rows acre_history) = [(''Acre'', 2022, amazonia), (''Acre'', 2023, amazonia)]"
  by (simp add: group_keys_def acre_history_def key_of_def amazonia_def)

lemma acre_grouped:
  "group_sum_first (rows acre_history) =
     [\<lparr>Estado = ''Acre'', bioma = amazonia, ds = 2022, area_fazenda_ha = 100,
       area_floresta_ha = 900, y = 1 / 100\<rparr>,
      \<lparr>Estado = ''Acre'', bioma = amazonia, ds = 2023, area_fazenda_ha = 300,
       area_floresta_ha = 700, y = 2 / 100\<rparr>]"
  unfolding group_sum_first_def acre_group_keys
  by (simp add: acre_history_def key_of_def amazonia_def nansum_def)

lemma sqrt_10000: "sqrt 10000 = 100"
  using real_sqrt_abs[of 100] by simp

lemma sqrt_100: "sqrt 100 = 10"
  using real_sqrt_abs[of 10] by simp

lemma sqrt_100th: "sqrt (1 / 100) = 1 / 10"
  using real_sqrt_abs[of "1 / 10"] by (simp add: power2_eq_square)

lemma acre_fit:
  "scaler_fit feature_columns [[100, 900, 9 / 10, 0], [300, 700, 7 / 10, 0]] = Inr acre_scaler"
  by (simp add: scaler_fit_def acre_scaler_def column_mean_def column_scale_def column_var_def
      power2_eq_square sqrt_10000 sqrt_100th)

lemma acre_scaled:
  "scaler_transform acre_scaler [[100, 900, 9 / 10, 0], [300, 700, 7 / 10, 0]] =
     [[- 1, 1, 1, 0], [1, - 1, - 1, 0]]"
  by (simp add: scaler_transform_def scale_row_def acre_scaler_def)

text \<open>
  Preprocessing \<open>acre_history\<close> fits the scaler anew, whatever preprocessor the forecaster
  holds.
\<close>

lemma acre_preprocess:
  assumes "preprocessor self \<noteq> None" "encoder_estados self = Some acre_encoder"
  shows "preprocess_data self acre_history =
     (Inr acre_processed, self\<lparr>preprocessor := Some (ColumnTransformer (Some acre_scaler))\<rparr>)"
proof -
  have cols: "''y'' \<in> set (columns acre_history)"
    "filter (\<lambda>c. c \<notin> set (columns acre_history)) required_cols = []"
    by (simp_all add: acre_history_def required_cols_def)
  have areas: "\<not> list_ex (\<lambda>r. total_area r \<le> 0) (group_sum_first (rows acre_history))"
    by (simp add: acre_grouped total_area_def)
  have codes: "encode_states self (group_sum_first (rows acre_history)) = Inr [0, 0]"
    by (simp add: encode_states_def assms acre_grouped acre_encoder_def encoder_transform_def)
  have derived: "map2 derived_row (group_sum_first (rows acre_history)) [0, 0] =
     [\<lparr>Estado = ''Acre'', bioma = amazonia, ds = 2022, area_fazenda_ha = 100,
       area_floresta_ha = 900, y = 1 / 100, prop_floresta = 9 / 10, estado_code = 0\<rparr>,
      \<lparr>Estado = ''Acre'', bioma = amazonia, ds = 2023, area_fazenda_ha = 300,
       area_floresta_ha = 700, y = 2 / 100, prop_floresta = 7 / 10, estado_code = 0\<rparr>]"
    by (simp add: acre_grouped derived_row_def total_area_def)
  obtain ct where ct: "preprocessor self = Some ct"
    using assms(1) by blast
  have "scale_features self (map2 derived_row (group_sum_first (rows acre_history)) [0, 0]) =
     (Inr acre_processed, self\<lparr>preprocessor := Some (ColumnTransformer (Some acre_scaler))\<rparr>)"
    unfolding derived
    by (simp add: scale_features_def ct has_mean_attr_def fit_transform_def features_of_def
        acre_fit acre_scaled with_features_def acre_processed_def)
  then show ?thesis
    by (simp add: preprocess_data_def cols areas codes Let_def)
qed

lemma acre_forecaster_preprocess:
  "preprocess_data acre_forecaster acre_history =
     (Inr acre_processed,
      acre_forecaster\<lparr>preprocessor := Some (ColumnTransformer (Some acre_scaler))\<rparr>)"
  by (rule acre_preprocess) (simp_all add: acre_forecaster_def UnifiedForecaster_def)

lemma acre_fit_model:
  "fit_model flat_engine
     (acre_forecaster\<lparr>preprocessor := Some (ColumnTransformer (Some acre_scaler))\<rparr>)
     acre_processed = (Inr (), acre_trained\<lparr>is_trained := False\<rparr>)"
  by (simp add: fit_model_def Let_def get_feature_names_out_def acre_scaler_def col_order_def
      feature_columns_def acre_forecaster_def UnifiedForecaster_def Prophet_def
      add_regressor_def prophet_fit_def flat_engine_def acre_processed_def acre_trained_def)

lemma acre_train: "train flat_engine acre_forecaster acre_history = (Inr (), acre_trained)"
  by (simp add: train_def acre_forecaster_preprocess acre_fit_model acre_trained_def)

subsection \<open>Failures of prediction\<close>

text \<open>
  Claim C8, as the code has it. When the inputs hold \<^verbatim>\<open>last_year\<close>, every failure of
  \<^verbatim>\<open>predict\<close> (a validation failure included) reaches the caller as a PredictionFailure
  that carries the original cause, the exception that its body raised, after one line
  has been logged that names the region and the cause.
\<close>

theorem predict_failure_wrapped:
  assumes "ic ''last_year'' \<noteq> None" and "predict pd self ic h = (Inl e, logged)"
  shows "\<exists>c. predict_body pd self ic h = Inl c \<and> e = PredictionFailure c \<and>
             logged = [LogError (region_of ic) c]"
  using assms by (auto simp: predict_def split: sum.splits)

theorem predict_failure_wrapped_witness:
  "full_conditions ''last_year'' \<noteq> None \<and>
   predict pandas_ns acre_forecaster full_conditions (PInt 0) =
     (Inl (PredictionFailure InvalidHorizon), [LogError (PStr ''Acre'') InvalidHorizon])"
proof -
  have present: "full_conditions ''last_year'' \<noteq> None"
    by (simp add: full_conditions_last_year)
  have body: "predict_body pandas_ns acre_forecaster full_conditions (PInt 0) = Inl InvalidHorizon"
    by (simp add: predict_body_def full_conditions_valid check_horizon_def)
  have run: "predict pandas_ns acre_forecaster full_conditions (PInt 0) =
      (Inl (PredictionFailure InvalidHorizon),
       [LogError (region_of full_conditions) InvalidHorizon])"
    by (simp add: predict_def body full_conditions_last_year)
  from predict_failure_wrapped[OF present run] present run show ?thesis
    by (simp add: full_conditions_region)
qed

text \<open>
  Claim C8 as stated fails: inputs without \<^verbatim>\<open>last_year\<close> are refused before the
  \<^verbatim>\<open>try\<close>, so the error is neither wrapped nor logged.
\<close>

theorem missing_last_year_unwrapped:
  "predict pandas_ns acre_trained (full_conditions(''last_year'' := None)) (PInt 5) =
     (Inl MissingLastYear, [])"
  by (simp add: predict_def)

text \<open>
  Claim C1 fails on the code. With exactly the six keys of the input contract,
  \<^verbatim>\<open>_validate_inputs\<close> reports the two derived fields as missing, for every forecaster, so
  the lines of \<^verbatim>\<open>predict\<close> that would compute them are never reached.
\<close>

theorem derived_fields_required:
  "predict pd self acre_conditions (PInt 5) =
     (Inl (PredictionFailure (MissingInputs [''prop_floresta'', ''estado_code''])),
      [LogError (PStr ''Acre'') (MissingInputs [''prop_floresta'', ''estado_code''])])"
  unfolding predict_def predict_body_def missing_keys_acre
  by (simp add: region_of_def acre_conditions_def)

subsection \<open>Loading\<close>

lemma load_missing_encoder:
  assumes "files path = Inr a" "saved_encoder_estados a = None"
  shows "load_model files path = Inl (LoadFailure EncoderNotFound)"
  using assms by (simp add: load_model_def Let_def)

lemma load_missing_preprocessor:
  assumes "files path = Inr a" "saved_encoder_estados a \<noteq> None" "saved_preprocessor a = None"
  shows "load_model files path = Inl (LoadFailure PreprocessorNotFitted)"
  using assms by (simp add: load_model_def Let_def has_transform_def)

text \<open>
  Claim C9 fails on the code for the scaler. An artifact whose preprocessor was never
  fitted passes the check of \<^verbatim>\<open>load_model\<close> (the object has a \<^verbatim>\<open>transform\<close> method all
  the same): the instance comes back marked trained, and its first prediction fails
  because the scaler is not fitted. (The encoder half of the claim holds, see
  \<open>load_missing_encoder\<close>.)
\<close>

theorem load_accepts_unfitted_scaler:
  "load_model unfitted_files path = Inr unfitted_loaded
   \<and> is_trained unfitted_loaded
   \<and> preprocessor unfitted_loaded = Some (ColumnTransformer None)
   \<and> fst (predict pandas_ns unfitted_loaded full_conditions (PInt 5)) =
       Inl (PredictionFailure NotFittedError)"
proof -
  have enc: "encoder_estados unfitted_loaded = Some acre_encoder"
    by (simp add: unfitted_loaded_def)
  obtain future where
    future: "create_future_dataframe pandas_ns unfitted_loaded full_conditions 5 = Inr future"
    using full_conditions_future[OF enc] by blast
  have unfitted: "transform (preprocessor unfitted_loaded) X = Inl NotFittedError" for X
    by (simp add: transform_def unfitted_loaded_def)
  have "predict_body pandas_ns unfitted_loaded full_conditions (PInt 5) = Inl NotFittedError"
    by (simp add: predict_body_def full_conditions_valid_encoder[OF enc] check_horizon_def
        full_conditions_derived future unfitted)
  then have "fst (predict pandas_ns unfitted_loaded full_conditions (PInt 5)) =
      Inl (PredictionFailure NotFittedError)"
    by (simp add: predict_def full_conditions_last_year)
  moreover have "load_model unfitted_files path = Inr unfitted_loaded"
    by (simp add: load_model_def unfitted_files_def unfitted_artifact_def UnifiedForecaster_def
        has_transform_def unfitted_loaded_def Let_def)
  ultimately show ?thesis
    by (simp add: unfitted_loaded_def)
qed

subsection \<open>The scaler is refitted by every preprocessing\<close>

lemma later_group_keys:
  "group_keys (rows later_history) = [(''Acre'', 2024, amazonia), (''Acre'', 2025, amazonia)]"
  by (simp add: group_keys_def later_history_def key_of_def amazonia_def)

lemma later_grouped:
  "group_sum_first (rows later_history) =
     [\<lparr>Estado = ''Acre'', bioma = amazonia, ds = 2024, area_fazenda_ha = 10,
       area_floresta_ha = 90, y = 1 / 100\<rparr>,
      \<lparr>Estado = ''Acre'', bioma = amazonia, ds = 2025, area_fazenda_ha = 30,
       area_floresta_ha = 70, y = 2 / 100\<rparr>]"
  unfolding group_sum_first_def later_group_keys
  by (simp add: later_history_def key_of_def amazonia_def nansum_def)

lemma later_fit:
  "scaler_fit feature_columns [[10, 90, 9 / 10, 0], [30, 70, 7 / 10, 0]] = Inr later_scaler"
  by (simp add: scaler_fit_def later_scaler_def column_mean_def column_scale_def column_var_def
      power2_eq_square sqrt_100 sqrt_100th)

lemma later_scaled:
  "scaler_transform later_scaler [[10, 90, 9 / 10, 0], [30, 70, 7 / 10, 0]] =
     [[- 1, 1, 1, 0], [1, - 1, - 1, 0]]"
  by (simp add: scaler_transform_def scale_row_def later_scaler_def)

text \<open>What the scaler fitted at training makes of the later rows.\<close>

lemma trained_scaled_later:
  "scaler_transform acre_scaler [[10, 90, 9 / 10, 0], [30, 70, 7 / 10, 0]] =
     [[- 19 / 10, - 71 / 10, 1, 0], [- 17 / 10, - 73 / 10, - 1, 0]]"
  by (simp add: scaler_transform_def scale_row_def acre_scaler_def)

lemma later_preprocess:
  "preprocess_data acre_trained later_history =
     (Inr later_processed,
      acre_trained\<lparr>preprocessor := Some (ColumnTransformer (Some later_scaler))\<rparr>)"
proof -
  have cols: "''y'' \<in> set (columns later_history)"
    "filter (\<lambda>c. c \<notin> set (columns later_history)) required_cols = []"
    by (simp_all add: later_history_def required_cols_def)
  have areas: "\<not> list_ex (\<lambda>r. total_area r \<le> 0) (group_sum_first (rows later_history))"
    by (simp add: later_grouped total_area_def)
  have codes: "encode_states acre_trained (group_sum_first (rows later_history)) = Inr [0, 0]"
    by (simp add: encode_states_def acre_trained_def later_grouped acre_encoder_def
        encoder_transform_def)
  have derived: "map2 derived_row (group_sum_first (rows later_history)) [0, 0] =
     [\<lparr>Estado = ''Acre'', bioma = amazonia, ds = 2024, area_fazenda_ha = 10,
       area_floresta_ha = 90, y = 1 / 100, prop_floresta = 9 / 10, estado_code = 0\<rparr>,
      \<lparr>Estado = ''Acre'', bioma = amazonia, ds = 2025, area_fazenda_ha = 30,
       area_floresta_ha = 70, y = 2 / 100, prop_floresta = 7 / 10, estado_code = 0\<rparr>]"
    by (simp add: later_grouped derived_row_def total_area_def)
  have ct: "preprocessor acre_trained = Some (ColumnTransformer (Some acre_scaler))"
    by (simp add: acre_trained_def)
  have "scale_features acre_trained
      (map2 derived_row (group_sum_first (rows later_history)) [0, 0]) =
     (Inr later_processed,
      acre_trained\<lparr>preprocessor := Some (ColumnTransformer (Some later_scaler))\<rparr>)"
    unfolding derived
    by (simp add: scale_features_def ct has_mean_attr_def fit_transform_def features_of_def
        later_fit later_scaled with_features_def later_processed_def)
  then show ?thesis
    by (simp add: preprocess_data_def cols areas codes Let_def)
qed

text \<open>
  Claim C4 fails on the code. After a successful \<^verbatim>\<open>train\<close> the scaler holds the
  parameters of the training rows; a later call of \<^verbatim>\<open>preprocess_data\<close> on other rows
  fits the scaler again: the forecaster is left with the parameters of the later rows,
  and the rows returned are scaled by those, not by the parameters fitted at training.
\<close>

theorem scaler_refit_after_training:
  "train flat_engine acre_forecaster acre_history = (Inr (), acre_trained)
   \<and> preprocessor acre_trained = Some (ColumnTransformer (Some acre_scaler))
   \<and> preprocess_data acre_trained later_history =
       (Inr later_processed,
        acre_trained\<lparr>preprocessor := Some (ColumnTransformer (Some later_scaler))\<rparr>)
   \<and> scaler_mean later_scaler \<noteq> scaler_mean acre_scaler
   \<and> map features_of later_processed \<noteq>
       scaler_transform acre_scaler [[10, 90, 9 / 10, 0], [30, 70, 7 / 10, 0]]"
  by (simp add: acre_train later_preprocess trained_scaled_later)
     (simp add: acre_trained_def later_scaler_def acre_scaler_def later_processed_def
       features_of_def)

subsection \<open>What training leaves behind\<close>

lemma register_regressors_fitted:
  assumes "history m"
  shows "snd (register_regressors m cols) = m"
  using assms
  by (induction m cols rule: register_regressors.induct) (auto simp: add_regressor_def)

lemma register_regressors_error:
  "fst (register_regressors m cols) = Inl e \<Longrightarrow> e = ProphetAlreadyFit"
  by (induction m cols rule: register_regressors.induct)
     (auto simp: add_regressor_def split: if_splits)

lemma preprocess_data_model:
  "preprocess_data self df = (r, self') \<Longrightarrow> model self' = model self"
  by (auto simp: preprocess_data_def scale_features_def Let_def
      split: if_splits sum.splits option.splits prod.splits)

text \<open>A successful \<^verbatim>\<open>train\<close> marks the forecaster trained and leaves its model fitted.\<close>

lemma train_success:
  assumes "train eng self df = (Inr u, self')"
  shows "is_trained self' \<and> model_fitted self'"
  using assms
  by (auto simp: train_def fit_model_def Let_def prophet_fit_def model_fitted_def
      split: prod.splits sum.splits option.splits if_splits)

text \<open>Saving a forecaster with a fitted model and loading the file restores such a one.\<close>

lemma load_saved_fitted:
  assumes "save_model self = Inr a" "model_fitted self" "files path = Inr a"
  shows "\<exists>loaded. load_model files path = Inr loaded \<and> is_trained loaded \<and> model_fitted loaded"
  using assms
  by (auto simp: save_model_def load_model_def Let_def has_transform_def model_fitted_def
      UnifiedForecaster_def split: if_splits option.splits)

lemma encode_states_success:
  assumes "encode_states self grouped = Inr codes"
  shows "\<exists>cs. encoder_estados self = Some (LabelEncoder (Some cs))"
proof (cases "encoder_estados self")
  case None
  with assms show ?thesis by (simp add: encode_states_def)
next
  case (Some enc)
  obtain c where enc: "enc = LabelEncoder c"
    by (cases enc)
  show ?thesis
  proof (cases c)
    case None
    with assms Some enc show ?thesis
      by (simp add: encode_states_def encoder_transform_def)
  next
    case (Some cs)
    with \<open>encoder_estados self = Some enc\<close> enc show ?thesis by simp
  qed
qed

lemma scale_features_success:
  assumes "scale_features self table = (Inr out, self1)"
  shows "\<exists>s. preprocessor self1 = Some (ColumnTransformer (Some s)) \<and>
             feature_names s = feature_columns \<and>
             encoder_estados self1 = encoder_estados self \<and> model self1 = model self"
  using assms
  by (auto simp: scale_features_def Let_def has_mean_attr_def fit_transform_def scaler_fit_def
      split: option.splits sum.splits if_splits)

lemma preprocess_data_success:
  assumes "preprocess_data self df = (Inr processed, self1)"
  shows "\<exists>cs s. encoder_estados self1 = Some (LabelEncoder (Some cs)) \<and>
               preprocessor self1 = Some (ColumnTransformer (Some s)) \<and>
               feature_names s = feature_columns \<and>
               model self1 = model self"
proof -
  from assms obtain codes where
    codes: "encode_states self (group_sum_first (rows df)) = Inr codes" and
    scale: "scale_features self (map2 derived_row (group_sum_first (rows df)) codes) =
      (Inr processed, self1)"
    by (auto simp: preprocess_data_def Let_def split: if_splits sum.splits)
  from encode_states_success[OF codes] scale_features_success[OF scale] show ?thesis
    by auto
qed

lemma prophet_fit_success:
  assumes "prophet_fit eng m cols table = (Inr u, m')"
  shows "history m' \<and> params m' \<noteq> None \<and> extra_regressors m' = extra_regressors m \<and>
         list_all (\<lambda>c. c \<in> set cols) (extra_regressors m)"
  using assms by (auto simp: prophet_fit_def split: if_splits option.splits)

lemma fit_model_success:
  assumes "fit_model eng self1 processed = (Inr u, self2)"
  shows "\<exists>m. model self2 = Some m \<and> history m \<and> params m \<noteq> None \<and>
     list_all (\<lambda>c. c \<in> set ([''ds'', ''y''] @ feature_columns)) (extra_regressors m) \<and>
     encoder_estados self2 = encoder_estados self1 \<and> preprocessor self2 = preprocessor self1"
proof -
  have cols: "filter (\<lambda>c. c \<in> set col_order) feature_columns = feature_columns"
    by (simp add: col_order_def feature_columns_def)
  from assms obtain m0 m1 m2 v w where
    "model self1 = Some m0"
    "register_regressors m0 feature_columns = (Inr v, m1)"
    "prophet_fit eng m1 ([''ds'', ''y''] @ feature_columns) processed = (Inr w, m2)"
    "self2 = self1\<lparr>model := Some m2\<rparr>"
    unfolding fit_model_def Let_def cols
    by (auto split: sum.splits option.splits if_splits prod.splits)
  with prophet_fit_success[of eng m1 "[''ds'', ''y''] @ feature_columns" processed w m2]
  show ?thesis by auto
qed

text \<open>What a successful training leaves behind.\<close>

lemma train_success_state:
  assumes "train eng self df = (Inr u, self')"
  shows "\<exists>cs s m p.
     encoder_estados self' = Some (LabelEncoder (Some cs)) \<and>
     preprocessor self' = Some (ColumnTransformer (Some s)) \<and>
     model self' = Some m \<and> history m \<and> params m = Some p \<and>
     list_all (\<lambda>c. c \<in> set ([''ds'', ''y''] @ feature_columns)) (extra_regressors m) \<and>
     is_trained self'"
proof -
  from assms obtain processed self1 self2 where
    pre: "preprocess_data self df = (Inr processed, self1)" and
    fit: "fit_model eng self1 processed = (Inr (), self2)" and
    self': "self' = self2\<lparr>is_trained := True\<rparr>"
    by (auto simp: train_def split: prod.splits sum.splits)
  from preprocess_data_success[OF pre] fit_model_success[OF fit] self' show ?thesis
    by auto
qed

subsection \<open>A failed training\<close>

lemma preprocess_data_failure:
  assumes "preprocess_data self df = (Inl e, self1)"
  shows "self1 = self"
  using assms
  by (auto simp: preprocess_data_def scale_features_def Let_def has_mean_attr_def
      split: if_splits sum.splits option.splits)

lemma fit_model_keeps:
  assumes "fit_model eng self1 processed = (r, self2)"
  shows "preprocessor self2 = preprocessor self1"
  using assms
  by (auto simp: fit_model_def Let_def split: sum.splits option.splits if_splits prod.splits)

text \<open>
  Claim C5, as the code has it. Whenever \<^verbatim>\<open>train\<close> raises, the forecaster it leaves has
  \<^verbatim>\<open>is_trained\<close> false and the error is a TrainingFailure around the exception of the
  step that failed. When that step is the preprocessing, nothing but the flag has
  changed. When it is a later step (the column check, the registration of the regressors
  or the fit of the model), the forecaster is the one that step left, with the flag
  cleared: the scaler fitted on this frame and what the model steps did are kept, nothing
  is rolled back.
\<close>

theorem train_failure_untrained:
  assumes "train eng self df = (Inl e, self')"
  shows "\<not> is_trained self' \<and>
    (\<exists>c. e = TrainingFailure c \<and>
       (case preprocess_data self df of
          (Inl e1, self1) \<Rightarrow> c = e1 \<and> self' = self\<lparr>is_trained := False\<rparr>
        | (Inr processed, self1) \<Rightarrow>
            fst (fit_model eng self1 processed) = Inl c \<and>
            self' = (snd (fit_model eng self1 processed))\<lparr>is_trained := False\<rparr> \<and>
            (\<exists>s. preprocessor self' = Some (ColumnTransformer (Some s)))))"
proof (cases "preprocess_data self df")
  case (Pair r self1)
  show ?thesis
  proof (cases r)
    case (Inl e1)
    with Pair have "self1 = self"
      using preprocess_data_failure[of self df e1 self1] by simp
    with Pair Inl assms show ?thesis
      by (auto simp: train_def)
  next
    case (Inr processed)
    obtain r2 self2 where fit: "fit_model eng self1 processed = (r2, self2)"
      by fastforce
    from preprocess_data_success[of self df processed self1] Pair Inr
    obtain s where "preprocessor self1 = Some (ColumnTransformer (Some s))"
      by auto
    with fit_model_keeps[OF fit] have "preprocessor self2 = Some (ColumnTransformer (Some s))"
      by simp
    with Pair Inr fit assms show ?thesis
      by (cases r2) (auto simp: train_def)
  qed
qed

lemma acre_failed_fit:
  "fit_model failing_engine
     (acre_forecaster\<lparr>preprocessor := Some (ColumnTransformer (Some acre_scaler))\<rparr>)
     acre_processed = (Inl EngineFailure, acre_stuck)"
  by (simp add: fit_model_def Let_def get_feature_names_out_def acre_scaler_def col_order_def
      feature_columns_def acre_forecaster_def UnifiedForecaster_def Prophet_def
      add_regressor_def prophet_fit_def failing_engine_def acre_processed_def acre_stuck_def)

lemma acre_failed_train:
  "train failing_engine acre_forecaster acre_history =
     (Inl (TrainingFailure EngineFailure), acre_stuck)"
  by (simp add: train_def acre_forecaster_preprocess acre_failed_fit) (simp add: acre_stuck_def)

lemma acre_stuck_again:
  "train flat_engine acre_stuck acre_history =
     (Inl (TrainingFailure ProphetFitOnce), acre_stuck)"
proof -
  have same: "acre_stuck\<lparr>preprocessor := Some (ColumnTransformer (Some acre_scaler))\<rparr> =
      acre_stuck"
    by (simp add: acre_stuck_def)
  have pre: "preprocess_data acre_stuck acre_history = (Inr acre_processed, acre_stuck)"
    using acre_preprocess[of acre_stuck] by (simp add: same) (simp add: acre_stuck_def)
  have fit: "fit_model flat_engine acre_stuck acre_processed = (Inl ProphetFitOnce, acre_stuck)"
    by (simp add: fit_model_def Let_def get_feature_names_out_def acre_scaler_def col_order_def
        feature_columns_def acre_stuck_def prophet_fit_def)
  show ?thesis
    by (simp add: train_def pre fit) (simp add: acre_stuck_def)
qed

theorem train_failure_untrained_witness:
  "train failing_engine acre_forecaster acre_history =
     (Inl (TrainingFailure EngineFailure), acre_stuck)
   \<and> \<not> is_trained acre_stuck
   \<and> fst (fit_model failing_engine
        (acre_forecaster\<lparr>preprocessor := Some (ColumnTransformer (Some acre_scaler))\<rparr>)
        acre_processed) = Inl EngineFailure
   \<and> preprocessor acre_stuck = Some (ColumnTransformer (Some acre_scaler))"
proof -
  from train_failure_untrained[OF acre_failed_train] have "\<not> is_trained acre_stuck"
    by simp
  then show ?thesis
    by (simp add: acre_failed_train acre_failed_fit) (simp add: acre_stuck_def)
qed

text \<open>
  Claim C5 as stated fails: a training that fails in the engine does not leave the
  forecaster as it was before the call. The scaler, unfitted before, has been fitted,
  the regressors have been registered, and the model holds a history, so that a
  following \<^verbatim>\<open>train\<close> on the same frame with an engine that works is refused: the
  instance is partially trained.
\<close>

theorem failed_train_partially_trained:
  "train failing_engine acre_forecaster acre_history =
     (Inl (TrainingFailure EngineFailure), acre_stuck)
   \<and> preprocessor acre_forecaster = Some (ColumnTransformer None)
   \<and> preprocessor acre_stuck = Some (ColumnTransformer (Some acre_scaler))
   \<and> model acre_forecaster = Some Prophet
   \<and> model acre_stuck =
       Some \<lparr>extra_regressors = feature_columns, history = True, params = None\<rparr>
   \<and> train flat_engine acre_forecaster acre_history = (Inr (), acre_trained)
   \<and> train flat_engine acre_stuck acre_history =
       (Inl (TrainingFailure ProphetFitOnce), acre_stuck)"
  by (simp add: acre_failed_train acre_stuck_again acre_train)
     (simp add: acre_stuck_def acre_forecaster_def UnifiedForecaster_def)

subsection \<open>Training a fitted model again\<close>

text \<open>
  With a fitted model and the scaler that a preprocessing has just fitted, the rest of
  \<^verbatim>\<open>train\<close> is refused by the engine, at the first regressor the model lacks or else at
  the fit, and the model is left as it was.
\<close>

lemma refit_refused:
  assumes m: "model self1 = Some m" "history m"
    and s: "preprocessor self1 = Some (ColumnTransformer (Some s))"
      "feature_names s = feature_columns"
  shows "\<exists>c self2. fit_model eng self1 processed = (Inl c, self2) \<and> model self2 = Some m \<and>
           (c = ProphetFitOnce \<or> c = ProphetAlreadyFit)"
proof -
  have names: "get_feature_names_out (preprocessor self1) = Inr feature_columns"
    by (simp add: get_feature_names_out_def s)
  have present: "''ds'' \<in> set col_order" "''y'' \<in> set col_order"
    "filter (\<lambda>c. c \<notin> set col_order) feature_columns = []"
    by (simp_all add: col_order_def feature_columns_def)
  obtain r m' where
    reg: "register_regressors m (filter (\<lambda>c. c \<in> set col_order) feature_columns) = (r, m')"
    by fastforce
  have same: "m' = m"
    using register_regressors_fitted[OF m(2),
        of "filter (\<lambda>c. c \<in> set col_order) feature_columns"] reg
    by simp
  show ?thesis
  proof (cases r)
    case (Inl e)
    then have "e = ProphetAlreadyFit"
      using register_regressors_error[of m
          "filter (\<lambda>c. c \<in> set col_order) feature_columns" e] reg
      by simp
    with Inl reg same m(1) show ?thesis
      by (simp add: fit_model_def names present Let_def)
  next
    case (Inr u)
    have "prophet_fit eng m cols processed = (Inl ProphetFitOnce, m)" for cols
      using m(2) by (simp add: prophet_fit_def)
    with Inr reg same m(1) show ?thesis
      by (simp add: fit_model_def names present Let_def)
  qed
qed

lemma retrain_step:
  assumes "model_fitted self"
  shows "\<exists>c self'. train eng self df = (Inl (TrainingFailure c), self') \<and>
           \<not> is_trained self' \<and> model self' = model self \<and>
           (case fst (preprocess_data self df) of
              Inl e \<Rightarrow> c = e
            | Inr processed \<Rightarrow> c = ProphetFitOnce \<or> c = ProphetAlreadyFit)"
proof (cases "preprocess_data self df")
  case (Pair r self1)
  from assms obtain m where m: "model self = Some m" "history m"
    by (auto simp: model_fitted_def split: option.splits)
  have model1: "model self1 = Some m"
    using preprocess_data_model[OF Pair] m(1) by simp
  show ?thesis
  proof (cases r)
    case (Inl e)
    with Pair model1 m(1) show ?thesis by (simp add: train_def)
  next
    case (Inr processed)
    from preprocess_data_success[of self df processed self1] Pair Inr
    obtain s where s: "preprocessor self1 = Some (ColumnTransformer (Some s))"
      "feature_names s = feature_columns"
      by auto
    from refit_refused[OF model1 m(2) s, of eng processed]
    obtain c self2 where "fit_model eng self1 processed = (Inl c, self2)"
      "model self2 = Some m" "c = ProphetFitOnce \<or> c = ProphetAlreadyFit"
      by blast
    with Pair Inr m(1) show ?thesis by (simp add: train_def)
  qed
qed

lemma retrain_each:
  assumes "model_fitted self"
  shows "list_all refused (fst (train_each eng self dfs)) \<and>
         model_fitted (snd (train_each eng self dfs))"
  using assms
proof (induction dfs arbitrary: self)
  case Nil
  then show ?case by simp
next
  case (Cons df dfs)
  from retrain_step[OF Cons.prems, of eng df] obtain c self1 where
    step: "train eng self df = (Inl (TrainingFailure c), self1)" "model self1 = model self"
    by blast
  then have "model_fitted self1"
    using Cons.prems by (simp add: model_fitted_def)
  from Cons.IH[OF this] step(1) show ?case
    by (auto split: prod.splits)
qed

text \<open>
  Claim C6, as the code has it. \<^verbatim>\<open>train\<close> has no lifecycle check of its own, but once
  the model of an instance has been fitted (by a successful \<^verbatim>\<open>train\<close>, or restored by
  \<^verbatim>\<open>load_model\<close>), \<^verbatim>\<open>train\<close> never succeeds on it again. Every call raises a
  TrainingFailure and leaves the instance marked untrained with its model as it was.
  When the frame passes the preprocessing, the cause is the refusal of the engine (a
  model can only be fit once, or no regressor can be added after the fit), which is a
  lifecycle error; when the preprocessing fails, the cause is the error of the
  preprocessing. As the model stays fitted, the same holds for every later call: of any
  sequence of calls each one is refused, so retraining needs a new instance.
\<close>

theorem retrain_fails:
  assumes "model_fitted self"
  shows "(\<exists>c self'. train eng self df = (Inl (TrainingFailure c), self') \<and>
            \<not> is_trained self' \<and> model self' = model self \<and> model_fitted self' \<and>
            (case fst (preprocess_data self df) of
               Inl e \<Rightarrow> c = e
             | Inr processed \<Rightarrow>
                 (c = ProphetFitOnce \<or> c = ProphetAlreadyFit) \<and> lifecycle_error c)) \<and>
         list_all refused (fst (train_each eng self dfs)) \<and>
         model_fitted (snd (train_each eng self dfs))"
proof -
  from retrain_step[OF assms, of eng df] obtain c self' where
    step: "train eng self df = (Inl (TrainingFailure c), self')" "\<not> is_trained self'"
      "model self' = model self"
      "case fst (preprocess_data self df) of
         Inl e \<Rightarrow> c = e
       | Inr processed \<Rightarrow> c = ProphetFitOnce \<or> c = ProphetAlreadyFit"
    by blast
  have "model_fitted self'"
    using assms step(3) by (simp add: model_fitted_def)
  moreover have "case fst (preprocess_data self df) of
       Inl e \<Rightarrow> c = e
     | Inr processed \<Rightarrow> (c = ProphetFitOnce \<or> c = ProphetAlreadyFit) \<and> lifecycle_error c"
    using step(4) by (auto split: sum.splits)
  ultimately show ?thesis
    using step(1,2,3) retrain_each[OF assms, of eng dfs] by blast
qed

lemma acre_trained_again:
  "train flat_engine acre_trained acre_history =
     (Inl (TrainingFailure ProphetFitOnce), acre_trained\<lparr>is_trained := False\<rparr>)"
proof -
  have same: "acre_trained\<lparr>preprocessor := Some (ColumnTransformer (Some acre_scaler))\<rparr> =
      acre_trained"
    by (simp add: acre_trained_def)
  have pre: "preprocess_data acre_trained acre_history = (Inr acre_processed, acre_trained)"
    using acre_preprocess[of acre_trained] by (simp add: same) (simp add: acre_trained_def)
  have fit: "fit_model flat_engine acre_trained acre_processed =
      (Inl ProphetFitOnce, acre_trained)"
    by (simp add: fit_model_def Let_def get_feature_names_out_def acre_scaler_def col_order_def
        feature_columns_def acre_trained_def prophet_fit_def)
  show ?thesis
    by (simp add: train_def pre fit)
qed

lemma acre_trained_preprocess:
  "preprocess_data acre_trained acre_history = (Inr acre_processed, acre_trained)"
proof -
  have same: "acre_trained\<lparr>preprocessor := Some (ColumnTransformer (Some acre_scaler))\<rparr> =
      acre_trained"
    by (simp add: acre_trained_def)
  show ?thesis
    using acre_preprocess[of acre_trained] by (simp add: same) (simp add: acre_trained_def)
qed

theorem retrain_fails_witness:
  "model_fitted acre_trained \<and>
   fst (preprocess_data acre_trained acre_history) = Inr acre_processed \<and>
   train flat_engine acre_trained acre_history =
     (Inl (TrainingFailure ProphetFitOnce), acre_trained\<lparr>is_trained := False\<rparr>) \<and>
   \<not> is_trained (acre_trained\<lparr>is_trained := False\<rparr>) \<and>
   model_fitted (acre_trained\<lparr>is_trained := False\<rparr>) \<and>
   lifecycle_error ProphetFitOnce \<and>
   list_all refused (fst (train_each flat_engine acre_trained [acre_history, later_history])) \<and>
   model_fitted (snd (train_each flat_engine acre_trained [acre_history, later_history]))"
proof -
  have fitted: "model_fitted acre_trained"
    by (simp add: model_fitted_def acre_trained_def)
  from retrain_fails[OF fitted, of flat_engine acre_history "[acre_history, later_history]"]
  have "list_all refused (fst (train_each flat_engine acre_trained [acre_history, later_history]))"
    "model_fitted (snd (train_each flat_engine acre_trained [acre_history, later_history]))"
    by blast+
  with fitted show ?thesis
    by (simp add: acre_trained_again acre_trained_preprocess) (simp add: model_fitted_def acre_trained_def)
qed

text \<open>
  Claim C6 as stated fails: a trained instance asked to train on a frame without the
  rate column is not refused for its state (the error is the missing column, wrapped),
  and it leaves the Trained state: \<^verbatim>\<open>is_trained\<close> is false afterwards.
\<close>

theorem trained_becomes_untrained:
  "is_trained acre_trained
   \<and> train flat_engine acre_trained (acre_history\<lparr>columns := []\<rparr>) =
       (Inl (TrainingFailure MissingY), acre_trained\<lparr>is_trained := False\<rparr>)
   \<and> \<not> lifecycle_error (TrainingFailure MissingY)
   \<and> \<not> is_trained (acre_trained\<lparr>is_trained := False\<rparr>)"
  by (simp add: train_def preprocess_data_def) (simp add: acre_trained_def)

subsection \<open>The example forecast\<close>








subsection \<open>The rows of a forecast\<close>

lemma check_types_ok:
  "check_types ic cs = Inr u \<Longrightarrow> (k, valid) \<in> set cs \<Longrightarrow> ic k = Some v \<Longrightarrow> valid v"
  by (induction ic cs rule: check_types.induct) (auto split: option.splits if_splits)

lemma is_integer_PInt: "is_integer v \<Longrightarrow> \<exists>i. v = PInt i"
  by (cases v) simp_all

lemma is_str_PStr: "is_str v \<Longrightarrow> \<exists>s. v = PStr s"
  by (cases v) simp_all

text \<open>What a successful validation establishes about the inputs.\<close>

lemma validate_inputs_success:
  assumes "validate_inputs self ic = Inr u"
  shows "\<exists>fz fl pf rate name biome code ly.
     ic ''area_fazenda_ha'' = Some fz \<and> is_number fz \<and>
     ic ''area_floresta_ha'' = Some fl \<and> is_number fl \<and>
     ic ''prop_floresta'' = Some pf \<and> is_number pf \<and>
     ic ''y'' = Some rate \<and> is_number rate \<and>
     ic ''Estado'' = Some (PStr name) \<and> ic ''bioma'' = Some (PStr biome) \<and>
     ic ''estado_code'' = Some (PInt code) \<and> ic ''last_year'' = Some (PInt ly)"
proof -
  from assms have present: "filter (\<lambda>k. ic k = None) required_keys = []"
    and types: "check_types ic type_checks = Inr ()"
    by (auto simp: validate_inputs_def Let_def andthen_eq_Inr split: if_splits)
  from present have "\<forall>k\<in>set required_keys. ic k \<noteq> None"
    by (simp add: filter_empty_conv)
  then obtain fz fl pf rate st bi code ly where v:
    "ic ''area_fazenda_ha'' = Some fz" "ic ''area_floresta_ha'' = Some fl"
    "ic ''prop_floresta'' = Some pf" "ic ''y'' = Some rate" "ic ''Estado'' = Some st"
    "ic ''bioma'' = Some bi" "ic ''estado_code'' = Some code" "ic ''last_year'' = Some ly"
    by (auto simp: required_keys_def feature_columns_def geo_columns_def)
  note ok = check_types_ok[OF types]
  have "is_number fz"
    using ok[of "''area_fazenda_ha''" is_number fz] v by (simp add: type_checks_def)
  moreover have "is_number fl"
    using ok[of "''area_floresta_ha''" is_number fl] v by (simp add: type_checks_def)
  moreover have "is_number pf"
    using ok[of "''prop_floresta''" is_number pf] v by (simp add: type_checks_def)
  moreover have "is_number rate"
    using ok[of "''y''" is_number rate] v by (simp add: type_checks_def)
  moreover have "\<exists>name. st = PStr name"
    using ok[of "''Estado''" is_str st] v by (simp add: type_checks_def is_str_PStr)
  moreover have "\<exists>biome. bi = PStr biome"
    using ok[of "''bioma''" is_str bi] v by (simp add: type_checks_def is_str_PStr)
  moreover have "\<exists>i. code = PInt i"
    using ok[of "''estado_code''" is_integer code] v by (simp add: type_checks_def is_integer_PInt)
  moreover have "\<exists>i. ly = PInt i"
    using ok[of "''last_year''" is_integer ly] v by (simp add: type_checks_def is_integer_PInt)
  ultimately show ?thesis
    using v by blast
qed

lemma validate_inputs_state:
  assumes "validate_inputs self ic = Inr u" "encoder_estados self = Some (LabelEncoder (Some cs))"
    "ic ''Estado'' = Some (PStr name)"
  shows "name \<in> set cs"
  using assms
  by (auto simp: validate_inputs_def Let_def andthen_eq_Inr list_ex_iff split: if_splits)

lemma length_cumprod_from: "length (cumprod_from acc xs) = length xs"
  by (induction xs arbitrary: acc) simp_all

lemma map_zip3_middle:
  assumes "length xs = length ys" "length ys = length zs"
  shows "map (\<lambda>(g, q, c). fst q) (zip xs (zip ys zs)) = map fst ys"
  using assms by (induction xs ys zs rule: list_induct3) auto

lemma map_data_result_rows:
  assumes "length forecast = length future"
  shows "map data (result_rows pd a f future forecast) = map fst forecast"
proof -
  have "length forecast = length (cumprod (map (\<lambda>(d, yhat, _). 1 - yhat) forecast))"
    by (simp add: cumprod_def length_cumprod_from)
  from map_zip3_middle[OF assms[symmetric] this] show ?thesis
    by (simp add: result_rows_def comp_def case_prod_unfold)
qed

lemma check_numeric_ok:
  "list_all (\<lambda>c. \<exists>v. ic c = Some v \<and> is_number v) cols \<Longrightarrow> check_numeric ic cols = Inr ()"
  by (induction cols) auto

text \<open>\<^verbatim>\<open>float\<close> of a number returns, or raises the overflow error.\<close>

lemma to_float_number:
  assumes "is_number v"
  shows "(\<exists>x. to_float v = Inr x) \<or> to_float v = Inl OverflowError"
  using assms by (cases v) auto

text \<open>The forecast of the engine keeps the dates, and fails with the overflow error only.\<close>

lemma forecast_rows_dates:
  "forecast_rows p future = Inr fs \<Longrightarrow> map fst fs = map fst future"
  by (induction p future arbitrary: fs rule: forecast_rows.induct)
     (auto split: option.splits sum.splits)

lemma forecast_rows_error:
  "forecast_rows p future = Inl e \<Longrightarrow> e = ProphetOverflow"
  by (induction p future rule: forecast_rows.induct) (auto split: option.splits sum.splits)

lemma forecast_rows_total:
  "list_all (\<lambda>(d, xs). p d xs \<noteq> None) future \<Longrightarrow> \<exists>fs. forecast_rows p future = Inr fs"
  by (induction p future rule: forecast_rows.induct) auto

text \<open>
  The future frame for valid inputs with a four-digit year after \<open>last_year\<close>: the rows of
  the years asked for, or a range error of \<^verbatim>\<open>date_range\<close> or \<^verbatim>\<open>float\<close>.
\<close>

lemma create_future_dataframe_outcome:
  assumes enc: "encoder_estados self = Some (LabelEncoder (Some cs))"
    and valid: "validate_inputs self ic = Inr ()"
    and ly: "ic ''last_year'' = Some (PInt ly)"
    and n: "0 < n" and four: "999 \<le> ly" "ly \<le> 9998"
  shows "(\<exists>future. create_future_dataframe pd self ic n = Inr future \<and>
            map ds future = map (\<lambda>k. ly + 1 + int k) [0..<nat n]) \<or>
         (\<exists>c. create_future_dataframe pd self ic n = Inl c \<and> range_failure c)"
proof -
  from validate_inputs_success[OF valid] obtain fz fl pf rate name biome code where v:
    "ic ''area_fazenda_ha'' = Some fz" "is_number fz"
    "ic ''area_floresta_ha'' = Some fl" "is_number fl"
    "ic ''prop_floresta'' = Some pf" "is_number pf"
    "ic ''y'' = Some rate" "is_number rate"
    "ic ''Estado'' = Some (PStr name)" "ic ''bioma'' = Some (PStr biome)"
    "ic ''estado_code'' = Some (PInt code)"
    by blast
  have numeric: "check_numeric ic [''area_fazenda_ha'', ''area_floresta_ha'', ''prop_floresta'', ''y''] = Inr ()"
    by (rule check_numeric_ok) (simp add: v)
  have "name \<in> set cs"
    using validate_inputs_state[OF valid enc v(9)] .
  then have known: "encoder_transform (LabelEncoder (Some cs)) [name] = Inr [int (index_of cs name)]"
    by (simp add: encoder_transform_def)
  have got: "getv ic ''y'' = rate" "getv ic ''area_fazenda_ha'' = fz"
    "getv ic ''area_floresta_ha'' = fl" "getv ic ''prop_floresta'' = pf"
    by (simp_all add: getv_def v)
  have cut: "take (nat n) (map (\<lambda>k. ly + 1 + int k) [0..<nat (n + 1)]) =
      map (\<lambda>k. ly + 1 + int k) [0..<nat n]"
    using n by (simp add: take_map min_def)
  note unfold = create_future_dataframe_def numeric lookup_def v enc known ly got date_range_def
    four
  show ?thesis
  proof (cases "range_fits pd (ly + 1) (nat (n + 1))")
    case False
    then show ?thesis by (simp add: unfold)
  next
    case True
    from to_float_number[OF v(8)] show ?thesis
    proof
      assume "to_float rate = Inl OverflowError"
      with True show ?thesis by (simp add: unfold)
    next
      assume "\<exists>x. to_float rate = Inr x"
      then obtain x1 where x1: "to_float rate = Inr x1" ..
      from to_float_number[OF v(2)] show ?thesis
      proof
        assume "to_float fz = Inl OverflowError"
        with True x1 show ?thesis by (simp add: unfold)
      next
        assume "\<exists>x. to_float fz = Inr x"
        then obtain x2 where x2: "to_float fz = Inr x2" ..
        from to_float_number[OF v(4)] show ?thesis
        proof
          assume "to_float fl = Inl OverflowError"
          with True x1 x2 show ?thesis by (simp add: unfold)
        next
          assume "\<exists>x. to_float fl = Inr x"
          then obtain x3 where x3: "to_float fl = Inr x3" ..
          from to_float_number[OF v(6)] show ?thesis
          proof
            assume "to_float pf = Inl OverflowError"
            with True x1 x2 x3 show ?thesis by (simp add: unfold)
          next
            assume "\<exists>x. to_float pf = Inr x"
            then obtain x4 where x4: "to_float pf = Inr x4" ..
            with True x1 x2 x3 show ?thesis
              by (simp add: unfold cut comp_def)
          qed
        qed
      qed
    qed
  qed
qed

text \<open>The future frame is returned when the date range fits and the four numbers convert.\<close>

lemma create_future_dataframe_returned:
  assumes enc: "encoder_estados self = Some (LabelEncoder (Some cs))"
    and valid: "validate_inputs self ic = Inr ()"
    and ly: "ic ''last_year'' = Some (PInt ly)"
    and n: "0 < n" and four: "999 \<le> ly" "ly \<le> 9998"
    and range: "range_fits pd (ly + 1) (nat (n + 1))"
    and floats: "to_float (getv ic ''y'') = Inr x1"
      "to_float (getv ic ''area_fazenda_ha'') = Inr x2"
      "to_float (getv ic ''area_floresta_ha'') = Inr x3"
      "to_float (getv ic ''prop_floresta'') = Inr x4"
  shows "\<exists>future. create_future_dataframe pd self ic n = Inr future \<and>
           map ds future = map (\<lambda>k. ly + 1 + int k) [0..<nat n]"
proof -
  from create_future_dataframe_outcome[OF enc valid ly n four, of pd] show ?thesis
  proof
    assume "\<exists>c. create_future_dataframe pd self ic n = Inl c \<and> range_failure c"
    then obtain c where c: "create_future_dataframe pd self ic n = Inl c"
      by blast
    from validate_inputs_success[OF valid] obtain fz fl pf rate name code biome where v:
      "ic ''area_fazenda_ha'' = Some fz" "is_number fz"
      "ic ''area_floresta_ha'' = Some fl" "is_number fl"
      "ic ''prop_floresta'' = Some pf" "is_number pf"
      "ic ''y'' = Some rate" "is_number rate"
      "ic ''Estado'' = Some (PStr name)" "ic ''bioma'' = Some (PStr biome)"
      "ic ''estado_code'' = Some (PInt code)"
      by blast
    have numeric: "check_numeric ic [''area_fazenda_ha'', ''area_floresta_ha'', ''prop_floresta'', ''y''] = Inr ()"
      by (rule check_numeric_ok) (simp add: v)
    have "name \<in> set cs"
      using validate_inputs_state[OF valid enc v(9)] .
    then have known:
      "encoder_transform (LabelEncoder (Some cs)) [name] = Inr [int (index_of cs name)]"
      by (simp add: encoder_transform_def)
    from c show ?thesis
      by (simp add: create_future_dataframe_def numeric lookup_def v enc known ly
          date_range_def four range floats)
  qed
qed

text \<open>
  The body of \<^verbatim>\<open>predict\<close> on a forecaster in the state a successful training leaves, for
  valid inputs with a four-digit year after \<open>last_year\<close> and a positive horizon.
\<close>

lemma predict_body_outcome:
  assumes st: "encoder_estados self = Some (LabelEncoder (Some cs))"
      "preprocessor self = Some (ColumnTransformer (Some s))"
      "model self = Some m" "history m" "params m = Some p"
      "list_all (\<lambda>c. c \<in> set ([''ds'', ''y''] @ feature_columns)) (extra_regressors m)"
    and valid: "validate_inputs self ic = Inr ()"
    and ly: "ic ''last_year'' = Some (PInt ly)"
    and n: "0 < n" and four: "999 \<le> ly" "ly \<le> 9998"
  shows "(\<exists>result. predict_body pd self ic (PInt n) = Inr result \<and> length result = nat n \<and>
            map data result = map (\<lambda>k. ly + 1 + int k) [0..<nat n]) \<or>
         (\<exists>c. predict_body pd self ic (PInt n) = Inl c \<and> range_failure c)"
proof -
  from validate_inputs_success[OF valid] obtain fz fl code pf where v:
    "ic ''area_fazenda_ha'' = Some fz" "ic ''area_floresta_ha'' = Some fl"
    "ic ''estado_code'' = Some (PInt code)" "ic ''prop_floresta'' = Some pf"
    by blast
  note unfold = predict_body_def valid check_horizon_def derive_estado_code_def
    derive_prop_floresta_def v transform_def st(2,3,5) prophet_predict_def lookup_def
  from create_future_dataframe_outcome[OF st(1) valid ly n four, of pd] show ?thesis
  proof
    assume "\<exists>c. create_future_dataframe pd self ic n = Inl c \<and> range_failure c"
    then obtain c where "create_future_dataframe pd self ic n = Inl c" "range_failure c"
      by blast
    then show ?thesis
      using n by (simp add: unfold)
  next
    assume "\<exists>future. create_future_dataframe pd self ic n = Inr future \<and>
            map ds future = map (\<lambda>k. ly + 1 + int k) [0..<nat n]"
    then obtain future where
      future: "create_future_dataframe pd self ic n = Inr future"
        "map ds future = map (\<lambda>k. ly + 1 + int k) [0..<nat n]"
      by blast
    define scaled where "scaled = scaler_transform s (map features_of future)"
    have len: "length scaled = length future"
      by (simp add: scaled_def scaler_transform_def)
    show ?thesis
    proof (cases "forecast_rows p (zip (map ds future) scaled)")
      case (Inl e)
      with forecast_rows_error[OF Inl] show ?thesis
        using n st(4,6) by (simp add: unfold future scaled_def)
    next
      case (Inr forecast)
      have dates: "map fst forecast = map ds future"
        using forecast_rows_dates[OF Inr] len by simp
      then have len2: "length forecast = length future"
        by (metis length_map)
      have body: "predict_body pd self ic (PInt n) =
          Inr (result_rows pd (num fz) (num fl) future forecast)"
        using n st(4,6) Inr by (simp add: unfold future scaled_def)
      have "map data (result_rows pd (num fz) (num fl) future forecast) =
          map (\<lambda>k. ly + 1 + int k) [0..<nat n]"
        using map_data_result_rows[OF len2] dates future(2) by simp
      moreover from this have "length (result_rows pd (num fz) (num fl) future forecast) = nat n"
        by (metis length_map diff_zero length_upt)
      ultimately show ?thesis
        using body by simp
    qed
  qed
qed

text \<open>
  The rows are returned when pandas can hold the date range, the four numbers convert to
  floats and the engine has a forecast for every date.
\<close>

lemma predict_rows_returned:
  assumes trained: "train eng self0 df = (Inr (), self)"
    and valid: "validate_inputs self ic = Inr ()"
    and ly: "ic ''last_year'' = Some (PInt ly)"
    and n: "0 < n" and four: "999 \<le> ly" "ly \<le> 9998"
    and range: "range_fits pd (ly + 1) (nat (n + 1))"
    and floats: "to_float (getv ic ''y'') = Inr x1"
      "to_float (getv ic ''area_fazenda_ha'') = Inr x2"
      "to_float (getv ic ''area_floresta_ha'') = Inr x3"
      "to_float (getv ic ''prop_floresta'') = Inr x4"
    and engine: "model self = Some m" "params m = Some p" "\<And>d xs. p d xs \<noteq> None"
  shows "\<exists>result. predict pd self ic (PInt n) = (Inr result, []) \<and> length result = nat n \<and>
           map data result = map (\<lambda>k. ly + 1 + int k) [0..<nat n]"
proof -
  from train_success_state[OF trained] engine(1,2) obtain cs s where st:
    "encoder_estados self = Some (LabelEncoder (Some cs))"
    "preprocessor self = Some (ColumnTransformer (Some s))"
    "model self = Some m" "history m" "params m = Some p"
    "list_all (\<lambda>c. c \<in> set ([''ds'', ''y''] @ feature_columns)) (extra_regressors m)"
    by auto
  from create_future_dataframe_returned[OF st(1) valid ly n four range floats]
  obtain future where future: "create_future_dataframe pd self ic n = Inr future"
    by blast
  from validate_inputs_success[OF valid] obtain code pf where v:
    "ic ''estado_code'' = Some (PInt code)" "ic ''prop_floresta'' = Some pf"
    by blast
  have "list_all (\<lambda>(d, xs). p d xs \<noteq> None) future'" for future'
    using engine(3) by (simp add: list_all_iff case_prod_unfold)
  from forecast_rows_total[OF this] have total: "\<exists>fs. forecast_rows p future' = Inr fs" for future'
    by blast
  have "\<not> (\<exists>c. predict_body pd self ic (PInt n) = Inl c \<and> range_failure c)"
  proof
    assume "\<exists>c. predict_body pd self ic (PInt n) = Inl c \<and> range_failure c"
    then obtain c where c: "predict_body pd self ic (PInt n) = Inl c" "range_failure c"
      by blast
    obtain fs where fs: "forecast_rows p
        (zip (map ds future) (scaler_transform s (map features_of future))) = Inr fs"
      using total by blast
    from c(1) have "c = KeyError ''area_floresta_ha'' \<or> c = KeyError ''area_fazenda_ha''"
      using n st(4,6)
      by (auto simp: predict_body_def valid check_horizon_def derive_estado_code_def
          derive_prop_floresta_def v future transform_def st(2,3,5) prophet_predict_def fs
          andthen_eq_Inl dest: lookup_error)
    with c(2) show False by auto
  qed
  with predict_body_outcome[OF st valid ly n four, of pd] ly show ?thesis
    by (auto simp: predict_def)
qed






subsection \<open>The training driver\<close>

lemma nansum_at_least:
  assumes "vs \<noteq> []" "list_all (\<lambda>v. case v of None \<Rightarrow> False | Some a \<Rightarrow> b \<le> a) vs" "0 \<le> b"
  shows "b \<le> nansum vs"
  using assms
proof (induction vs)
  case Nil
  then show ?case by simp
next
  case (Cons v vs)
  show ?case
  proof (cases "vs = []")
    case True
    with Cons.prems show ?thesis by (auto simp: nansum_def split: option.splits)
  next
    case False
    with Cons have "b \<le> nansum vs" by simp
    with Cons.prems show ?thesis by (auto simp: nansum_def split: option.splits)
  qed
qed

lemma group_nonempty:
  "k \<in> set (group_keys rs) \<Longrightarrow> filter (\<lambda>r. key_of r = k) rs \<noteq> []"
  by (auto simp: group_keys_def filter_empty_conv)

lemma group_areas:
  assumes "list_all (areas_at_least b) rs"
  shows "list_all (\<lambda>v. case v of None \<Rightarrow> False | Some a \<Rightarrow> b \<le> a)
           (map area_fazenda_ha (filter P rs))"
    and "list_all (\<lambda>v. case v of None \<Rightarrow> False | Some a \<Rightarrow> b \<le> a)
           (map area_floresta_ha (filter P rs))"
  using assms by (auto simp: list_all_iff areas_at_least_def)

lemma group_average_areas:
  assumes "group_average rs ks = Inr out" "list_all (areas_at_least b) rs" "0 \<le> b"
    "list_all (\<lambda>k. filter (\<lambda>r. key_of r = k) rs \<noteq> []) ks"
  shows "list_all (areas_at_least b) out"
  using assms
proof (induction ks arbitrary: out)
  case Nil
  then show ?case by simp
next
  case (Cons k ks)
  from Cons.prems(1) obtain rate rest where
    rest: "group_average rs ks = Inr rest" and
    out: "out = \<lparr>Estado = fst k, bioma = snd (snd k), ds = fst (snd k),
            area_fazenda_ha = Some (nansum (map area_fazenda_ha (filter (\<lambda>r. key_of r = k) rs))),
            area_floresta_ha = Some (nansum (map area_floresta_ha (filter (\<lambda>r. key_of r = k) rs))),
            y = rate\<rparr> # rest"
    by (auto simp: Let_def split: sum.splits)
  have ne: "filter (\<lambda>r. key_of r = k) rs \<noteq> []"
    using Cons.prems(4) by simp
  have "b \<le> nansum (map area_fazenda_ha (filter (\<lambda>r. key_of r = k) rs))"
    "b \<le> nansum (map area_floresta_ha (filter (\<lambda>r. key_of r = k) rs))"
    using ne group_areas[OF Cons.prems(2)] Cons.prems(3) by (auto intro!: nansum_at_least)
  then have "areas_at_least b \<lparr>Estado = fst k, bioma = snd (snd k), ds = fst (snd k),
            area_fazenda_ha = Some (nansum (map area_fazenda_ha (filter (\<lambda>r. key_of r = k) rs))),
            area_floresta_ha = Some (nansum (map area_floresta_ha (filter (\<lambda>r. key_of r = k) rs))),
            y = rate\<rparr>"
    by (simp add: areas_at_least_def)
  moreover have "list_all (areas_at_least b) rest"
    using Cons.IH[OF rest Cons.prems(2,3)] Cons.prems(4) by simp
  ultimately show ?case
    by (simp add: out)
qed

lemma clipped_areas:
  assumes "no_missing_areas raw"
  shows "list_all (areas_at_least (1 / 10000))
     (map (\<lambda>r. r\<lparr>area_fazenda_ha := clip_lower (1 / 10000) (area_fazenda_ha r),
                  area_floresta_ha := clip_lower (1 / 10000) (area_floresta_ha r)\<rparr>) (rows raw))"
  using assms
  by (auto simp: no_missing_areas_def list_all_iff areas_at_least_def clip_lower_def)

lemma prepare_areas:
  assumes "prepare pd raw = Inr df" "no_missing_areas raw"
  shows "list_all (areas_at_least (1 / 10000)) (rows df)"
proof -
  define clipped where "clipped =
     map (\<lambda>r. r\<lparr>area_fazenda_ha := clip_lower (1 / 10000) (area_fazenda_ha r),
                  area_floresta_ha := clip_lower (1 / 10000) (area_floresta_ha r)\<rparr>) (rows raw)"
  from assms(1) obtain grouped where
    grouped: "group_average clipped (group_keys clipped) = Inr grouped" and
    df: "rows df = grouped"
    by (auto simp: prepare_def Let_def andthen_eq_Inr clipped_def split: list.splits)
  have "list_all (\<lambda>k. filter (\<lambda>r. key_of r = k) clipped \<noteq> []) (group_keys clipped)"
    by (simp add: list_all_iff group_nonempty)
  from group_average_areas[OF grouped _ _ this, of "1 / 10000"] clipped_areas[OF assms(2)]
  show ?thesis
    by (simp add: df clipped_def)
qed

lemma grouped_total_area:
  assumes "list_all (areas_at_least b) rs" "0 < b"
  shows "list_all (\<lambda>g. 0 < total_area g) (group_sum_first rs)"
proof -
  have "0 < total_area \<lparr>Estado = fst k, bioma = snd (snd k), ds = fst (snd k),
             area_fazenda_ha = nansum (map area_fazenda_ha (filter (\<lambda>r. key_of r = k) rs)),
             area_floresta_ha = nansum (map area_floresta_ha (filter (\<lambda>r. key_of r = k) rs)),
             y = v\<rparr>"
    if "k \<in> set (group_keys rs)" for k v
  proof -
    have ne: "filter (\<lambda>r. key_of r = k) rs \<noteq> []"
      using that by (rule group_nonempty)
    have "b \<le> nansum (map area_fazenda_ha (filter (\<lambda>r. key_of r = k) rs))"
      "b \<le> nansum (map area_floresta_ha (filter (\<lambda>r. key_of r = k) rs))"
      using ne group_areas[OF assms(1)] assms(2) by (auto intro!: nansum_at_least)
    with assms(2) show ?thesis
      by (simp add: total_area_def)
  qed
  then show ?thesis
    by (simp add: group_sum_first_def list_all_iff Let_def)
qed

lemma scale_features_error:
  "fst (scale_features self table) = Inl e \<Longrightarrow> \<exists>c. e = ScalingFailure c"
  by (auto simp: scale_features_def Let_def split: option.splits if_splits sum.splits)

lemma encode_states_error:
  "encode_states self grouped = Inl e \<Longrightarrow> e \<noteq> InvalidArea"
  by (auto simp: encode_states_def split: option.splits sum.splits)

lemma preprocess_data_valid_area:
  assumes "list_all (areas_at_least b) (rows df)" "0 < b"
  shows "fst (preprocess_data self df) \<noteq> Inl InvalidArea"
proof -
  have "\<not> list_ex (\<lambda>r. total_area r \<le> 0) (group_sum_first (rows df))"
    using grouped_total_area[OF assms] by (auto simp: list_all_iff list_ex_iff)
  then show ?thesis
    by (auto simp: preprocess_data_def Let_def split: sum.splits
        dest: scale_features_error encode_states_error)
qed

lemma prophet_fit_error:
  "fst (prophet_fit eng m cols table) = Inl e \<Longrightarrow> e \<noteq> InvalidArea"
  by (auto simp: prophet_fit_def split: if_splits option.splits)

lemma get_feature_names_out_error:
  "get_feature_names_out p = Inl e \<Longrightarrow> e \<noteq> InvalidArea"
  by (auto simp: get_feature_names_out_def split: option.splits)

lemma fit_model_error:
  assumes "fst (fit_model eng self table) = Inl e"
  shows "e \<noteq> InvalidArea"
proof (cases "get_feature_names_out (preprocessor self)")
  case (Inl e')
  with assms get_feature_names_out_error[OF Inl] show ?thesis
    by (simp add: fit_model_def)
next
  case (Inr names)
  show ?thesis
  proof (cases "model self")
    case None
    with assms Inr show ?thesis
      by (auto simp: fit_model_def Let_def split: if_splits)
  next
    case (Some m)
    obtain r m' where reg:
      "register_regressors m (filter (\<lambda>c. c \<in> set col_order) feature_columns) = (r, m')"
      by fastforce
    show ?thesis
    proof (cases r)
      case (Inl e')
      then have "e' = ProphetAlreadyFit"
        using register_regressors_error[of m "filter (\<lambda>c. c \<in> set col_order) feature_columns" e'] reg
        by simp
      with assms Inr Some reg Inl show ?thesis
        by (auto simp: fit_model_def Let_def split: if_splits)
    next
      case ok: (Inr u)
      obtain r2 m'' where fitted:
        "prophet_fit eng m' ([''ds'', ''y''] @ filter (\<lambda>c. c \<in> set col_order) feature_columns)
           table = (r2, m'')"
        by fastforce
      then have "r2 \<noteq> Inl InvalidArea"
        using prophet_fit_error[of eng m'
            "[''ds'', ''y''] @ filter (\<lambda>c. c \<in> set col_order) feature_columns" table InvalidArea]
        by auto
      with assms Inr Some reg ok fitted show ?thesis
        by (cases r2) (auto simp: fit_model_def Let_def split: if_splits)
    qed
  qed
qed

lemma train_valid_area:
  assumes "list_all (areas_at_least b) (rows df)" "0 < b"
  shows "fst (train eng self df) \<noteq> Inl (TrainingFailure InvalidArea)"
proof (cases "preprocess_data self df")
  case (Pair r self1)
  show ?thesis
  proof (cases r)
    case (Inl e)
    with Pair preprocess_data_valid_area[OF assms, of self] show ?thesis
      by (simp add: train_def)
  next
    case (Inr processed)
    obtain r2 self2 where fit: "fit_model eng self1 processed = (r2, self2)"
      by fastforce
    with Pair Inr fit_model_error[of eng self1 processed] show ?thesis
      by (cases r2) (auto simp: train_def)
  qed
qed

lemma encoder_transform_error:
  "encoder_transform enc labels = Inl e \<Longrightarrow> e = NotFittedError \<or> e = UnseenLabels"
  by (auto simp: encoder_transform_def split: option.splits if_splits)

lemma save_model_error:
  "save_model self = Inl e \<Longrightarrow> e \<noteq> TrainingFailure InvalidArea"
  by (auto simp: save_model_def split: if_splits option.splits)

lemma train_states_valid_area:
  assumes "list_all (areas_at_least b) (rows df)" "0 < b"
  shows "train_states eng enc df states \<noteq> Inl (TrainingFailure InvalidArea)"
proof (induction states)
  case Nil
  then show ?case by simp
next
  case (Cons estado states)
  define df_estado where "df_estado =
     \<lparr>columns = columns df @ [''estado_code''],
      rows = filter (\<lambda>r. Estado r = estado) (rows df)\<rparr>"
  have "list_all (areas_at_least b) (rows df_estado)"
    using assms(1) by (simp add: df_estado_def list_all_iff)
  from train_valid_area[OF this assms(2)]
  have "fst (train eng (UnifiedForecaster\<lparr>encoder_estados := Some enc\<rparr>) df_estado) \<noteq>
      Inl (TrainingFailure InvalidArea)" .
  with Cons.IH show ?case
    by (auto simp: Let_def df_estado_def split: sum.splits prod.splits
        dest: encoder_transform_error save_model_error)
qed

lemma np_average_error: "np_average xs ws = Inl e \<Longrightarrow> e = ZeroDivisionError"
  by (auto simp: np_average_def Let_def split: if_splits)

lemma group_average_error: "group_average rs ks = Inl e \<Longrightarrow> e = ZeroDivisionError"
  by (induction rs ks rule: group_average.induct)
     (auto simp: Let_def split: sum.splits dest: np_average_error)

lemma validate_input_data_error:
  "validate_input_data pd df = Inl e \<Longrightarrow> e \<noteq> TrainingFailure InvalidArea"
  by (auto simp: validate_input_data_def Let_def split: if_splits)

lemma prepare_error: "prepare pd raw = Inl e \<Longrightarrow> e \<noteq> TrainingFailure InvalidArea"
  by (auto simp: prepare_def Let_def andthen_eq_Inl split: list.splits
      dest: group_average_error validate_input_data_error)

text \<open>
  When no area value of the loaded frame is missing, the clipping of the driver does
  what its comment says: both areas of every aggregated row are at least 0.0001, and no
  training started by the driver fails on the total-area assertion of
  \<^verbatim>\<open>preprocess_data\<close>.
\<close>

lemma clipped_areas_valid:
  assumes "no_missing_areas raw"
  shows "(case prepare pd raw of
            Inl e \<Rightarrow> True
          | Inr df \<Rightarrow> list_all (areas_at_least (1 / 10000)) (rows df)) \<and>
         main pd eng raw \<noteq> Inl (TrainingFailure InvalidArea)"
proof (cases "prepare pd raw")
  case (Inl e)
  with prepare_error[OF Inl] show ?thesis
    by (simp add: main_def)
next
  case (Inr df)
  from prepare_areas[OF Inr assms] have "list_all (areas_at_least (1 / 10000)) (rows df)" .
  from train_states_valid_area[OF this] this Inr show ?thesis
    by (simp add: main_def)
qed

lemma zero_prepare: "prepare pandas_ns zero_frame = Inr zero_prepared"
  by (simp add: prepare_def zero_frame_def zero_prepared_def clip_lower_def group_keys_def
      key_of_def np_average_def nansum_def validate_input_data_def pandas_ns_def Let_def)

lemma zero_frame_valid:
  "no_missing_areas zero_frame \<and>
   list_all (areas_at_least (1 / 10000)) (rows zero_prepared) \<and>
   main pandas_ns flat_engine zero_frame \<noteq> Inl (TrainingFailure InvalidArea)"
proof -
  have ok: "no_missing_areas zero_frame"
    by (simp add: no_missing_areas_def zero_frame_def)
  from clipped_areas_valid[OF ok, of pandas_ns flat_engine] ok show ?thesis
    by (simp add: zero_prepare)
qed

lemma nan_prepare:
  "prepare pandas_ns nan_frame =
     Inr \<lparr>columns = [''Estado'', ''ds'', ''bioma'', ''area_fazenda_ha'', ''area_floresta_ha'', ''y''],
          rows = [\<lparr>Estado = ''Acre'', bioma = amazonia, ds = 2020, area_fazenda_ha = Some 0,
                   area_floresta_ha = Some 0, y = NaN\<rparr>]\<rparr>"
  by (simp add: prepare_def nan_frame_def clip_lower_def group_keys_def key_of_def
      np_average_def nansum_def validate_input_data_def pandas_ns_def Let_def)

text \<open>
  Claim C10 fails on the code. The driver clips the areas "before the grouping" so that
  the total-area assertion of \<^verbatim>\<open>preprocess_data\<close> cannot fail, and
  \<^verbatim>\<open>_validate_input_data\<close> refuses missing areas. But clipping leaves a missing area
  missing, the grouped sum of a group without values is 0, and the check for missing
  values runs after the grouping has erased them: for a frame whose only row has both
  areas missing the validation passes and the assertion fails in \<^verbatim>\<open>train\<close>.
\<close>

theorem driver_invalid_area_reached:
  "main pandas_ns flat_engine nan_frame = Inl (TrainingFailure InvalidArea)"
  by (simp add: main_def nan_prepare unique_def encoder_fit_def encoder_transform_def
      train_def preprocess_data_def required_cols_def group_sum_first_def group_keys_def
      key_of_def nansum_def total_area_def Let_def)

end
